theory Spec2Isabelle
  imports Complex_Main "HOL-Library.Sublist"
begin

section \<open>Python strings\<close>

text \<open>
  A Python \<open>str\<close> is modelled as a \<^typ>\<open>string\<close> whose characters are the code points
  U+0000 to U+00FF: the character with number \<open>n\<close> stands for the code point \<open>n\<close>.
  The predicates below are Python's \<open>str.isspace\<close>, \<open>str.isalpha\<close>, \<open>str.isupper\<close>
  and \<open>str.lower\<close> on that range.
\<close>

definition py_isspace :: "char \<Rightarrow> bool" where
  "py_isspace c =
     (let n = (of_char c :: nat)
      in (9 \<le> n \<and> n \<le> 13) \<or> (28 \<le> n \<and> n \<le> 32) \<or> n = 133 \<or> n = 160)"

definition strip :: "string \<Rightarrow> string" where
  "strip s = rev (dropWhile py_isspace (rev (dropWhile py_isspace s)))"

definition py_isalpha_char :: "char \<Rightarrow> bool" where
  "py_isalpha_char c =
     (let n = (of_char c :: nat)
      in (65 \<le> n \<and> n \<le> 90) \<or> (97 \<le> n \<and> n \<le> 122) \<or> n = 170 \<or> n = 181 \<or> n = 186
         \<or> (192 \<le> n \<and> n \<le> 214) \<or> (216 \<le> n \<and> n \<le> 246) \<or> (248 \<le> n \<and> n \<le> 255))"

definition py_isupper_char :: "char \<Rightarrow> bool" where
  "py_isupper_char c =
     (let n = (of_char c :: nat)
      in (65 \<le> n \<and> n \<le> 90) \<or> (192 \<le> n \<and> n \<le> 214) \<or> (216 \<le> n \<and> n \<le> 222))"

definition py_islower_char :: "char \<Rightarrow> bool" where
  "py_islower_char c =
     (let n = (of_char c :: nat)
      in (97 \<le> n \<and> n \<le> 122) \<or> n = 170 \<or> n = 181 \<or> n = 186
         \<or> (223 \<le> n \<and> n \<le> 246) \<or> (248 \<le> n \<and> n \<le> 255))"

definition py_isalpha :: "string \<Rightarrow> bool" where
  "py_isalpha s = (s \<noteq> [] \<and> list_all py_isalpha_char s)"

definition py_isupper :: "string \<Rightarrow> bool" where
  \<comment> \<open>no cased character is lower case and at least one cased character exists\<close>
  "py_isupper s = (\<not> list_ex py_islower_char s \<and> list_ex py_isupper_char s)"

definition py_lower_char :: "char \<Rightarrow> char" where
  "py_lower_char c = (if py_isupper_char c then char_of ((of_char c :: nat) + 32) else c)"

definition py_lower :: "string \<Rightarrow> string" where
  "py_lower s = map py_lower_char s"

fun split_on :: "char \<Rightarrow> string \<Rightarrow> string list" where
  "split_on sep [] = [[]]"
| "split_on sep (c # cs) =
     (if c = sep then [] # split_on sep cs
      else (case split_on sep cs of [] \<Rightarrow> [[c]] | p # ps \<Rightarrow> (c # p) # ps))"

fun join :: "string \<Rightarrow> string list \<Rightarrow> string" where
  "join sep [] = []"
| "join sep [p] = p"
| "join sep (p # q # ps) = p @ sep @ join sep (q # ps)"

definition digit_char :: "nat \<Rightarrow> char" where
  "digit_char d = char_of (48 + d)"

fun str_nat :: "nat \<Rightarrow> string" where
  "str_nat n = (if n < 10 then [digit_char n] else str_nat (n div 10) @ [digit_char (n mod 10)])"

declare str_nat.simps [simp del]

definition startswith :: "string \<Rightarrow> string \<Rightarrow> bool" where
  "startswith s p = prefix p s"

definition startswith_any :: "string \<Rightarrow> string list \<Rightarrow> bool" where
  "startswith_any s ps = list_ex (startswith s) ps"

fun contains_str :: "string \<Rightarrow> string \<Rightarrow> bool" where
  \<comment> \<open>\<open>needle in hay\<close>\<close>
  "contains_str needle [] = (needle = [])"
| "contains_str needle (c # cs) = (prefix needle (c # cs) \<or> contains_str needle cs)"

section \<open>Transformer: column identifiers\<close>

text \<open>
  The three severity enumerations of the repository (\<open>ErrorSeverity\<close>,
  \<open>TransformationSeverity\<close>, \<open>ValidationSeverity\<close>) have the same three members.
\<close>

datatype severity = FATAL | ERROR | WARNING

record TransformationError =
  te_code :: string
  te_severity :: severity
  te_message :: string
  te_row_index :: "nat option"
  te_column_name :: "string option"
  te_value :: "string option"
  te_details :: "(string \<times> string) list option"

record ParsedColumn =
  original_name :: string
  element_id :: string
  field_id :: string
  is_country_specific :: bool
  country_code :: "string option"
  full_path :: string

definition mk_ParsedColumn :: "string \<Rightarrow> string \<Rightarrow> string \<Rightarrow> bool \<Rightarrow> string option \<Rightarrow> ParsedColumn" where
  \<comment> \<open>the dataclass constructor with its \<open>__post_init__\<close>\<close>
  "mk_ParsedColumn orig el fld cs cc =
     \<lparr>original_name = orig, element_id = el, field_id = fld, is_country_specific = cs,
      country_code = cc, full_path = el @ ''.'' @ fld\<rparr>"

definition invalid_column_composition :: "string \<Rightarrow> string \<Rightarrow> TransformationError" where
  "invalid_column_composition column_name details =
     \<lparr>te_code = ''INVALID_COLUMN_COMPOSITION'', te_severity = ERROR,
      te_message = ''Identificador de columna no v'' @ [CHR 0xE1] @ ''lido: '' @ [CHR 0x27] @ column_name @ [CHR 0x27],
      te_row_index = None, te_column_name = Some column_name, te_value = None,
      te_details = Some [(''reason'', details)]\<rparr>"

definition COMPOUND_ELEMENTS :: "string list" where
  "COMPOUND_ELEMENTS =
     [''homeAddress_home'', ''homeAddress_fiscal'', ''workPermitInfo_RFC'', ''workPermitInfo_IMMS'',
      ''globalInfo'', ''biographicalInfoLoc'']"

definition looks_like_country_code :: "string \<Rightarrow> bool" where
  "looks_like_country_code code =
     (if code = [] then False
      else if \<not> (2 \<le> length code \<and> length code \<le> 3) then False
      else if \<not> py_isupper code then False
      else if \<not> py_isalpha code then False
      else True)"

text \<open>
  \<open>parse_column\<close> returns the pair \<open>(parsed_column, error)\<close> of the source; exactly the
  branches of the source are kept, also the two that no input reaches.
\<close>

definition resolve_parts :: "string \<Rightarrow> string list \<Rightarrow> TransformationError + (bool \<times> string option \<times> string \<times> string)" where
  "resolve_parts column_name parts =
     (if length parts \<ge> 3 \<and> looks_like_country_code (parts ! 0) then
        (if length parts \<ge> 4 then
           (let potential_compound = parts ! 1 @ ''_'' @ parts ! 2
            in if potential_compound \<in> set COMPOUND_ELEMENTS
               then Inr (True, Some (parts ! 0), potential_compound, join ''_'' (drop 3 parts))
               else Inr (True, Some (parts ! 0), parts ! 1, join ''_'' (drop 2 parts)))
         else if length parts = 3 then Inr (True, Some (parts ! 0), parts ! 1, parts ! 2)
         else Inl (invalid_column_composition column_name
                (''Formato CSF inv'' @ [CHR 0xE1] @ ''lido: '' @ str_nat (length parts) @ '' partes'')))
      else
        (if length parts \<ge> 2 then
           (let potential_compound = parts ! 0 @ ''_'' @ parts ! 1
            in if potential_compound \<in> set COMPOUND_ELEMENTS \<and> length parts \<ge> 3
               then Inr (False, None, potential_compound, join ''_'' (drop 2 parts))
               else Inr (False, None, parts ! 0, join ''_'' (drop 1 parts)))
         else Inl (invalid_column_composition column_name
                (''Partes insuficientes: '' @ str_nat (length parts)))))"

definition parse_column :: "string \<Rightarrow> ParsedColumn option \<times> TransformationError option" where
  "parse_column column_name0 =
     (if column_name0 = [] then
        (None, Some (invalid_column_composition column_name0
                (''Nombre de columna vac'' @ [CHR 0xED] @ ''o o no string'')))
      else
        (let column_name = strip column_name0
         in if CHR ''_'' \<notin> set column_name then
              (None, Some (invalid_column_composition column_name
                      (''Formato inv'' @ [CHR 0xE1] @ ''lido: debe contener '' @ [CHR 0x27] @ ''_'' @ [CHR 0x27])))
            else
              (case resolve_parts column_name (split_on (CHR ''_'') column_name) of
                 Inl e \<Rightarrow> (None, Some e)
               | Inr (is_cs, cc, el, fld) \<Rightarrow>
                   if el = [] then
                     (None, Some (invalid_column_composition column_name (''Elemento vac'' @ [CHR 0xED] @ ''o'')))
                   else if fld = [] then
                     (None, Some (invalid_column_composition column_name (''Campo vac'' @ [CHR 0xED] @ ''o'')))
                   else (Some (mk_ParsedColumn column_name el fld is_cs cc), None))))"

fun parse_all_columns_from :: "nat \<Rightarrow> string list \<Rightarrow> ParsedColumn list \<times> TransformationError list" where
  "parse_all_columns_from col_index [] = ([], [])"
| "parse_all_columns_from col_index (column_name # rest) =
     (let (parsed_columns, errors) = parse_all_columns_from (Suc col_index) rest
      in case parse_column column_name of
           (_, Some error) \<Rightarrow>
             (mk_ParsedColumn column_name (''ERROR_'' @ str_nat col_index) column_name False None # parsed_columns,
              error # errors)
         | (Some parsed_column, None) \<Rightarrow> (parsed_column # parsed_columns, errors)
         | (None, None) \<Rightarrow>
             (mk_ParsedColumn column_name (''UNKNOWN_'' @ str_nat col_index) column_name False None # parsed_columns,
              invalid_column_composition column_name (''Parseo retorn'' @ [CHR 0xF3] @ '' None sin error'') # errors))"

definition parse_all_columns :: "string list \<Rightarrow> ParsedColumn list \<times> TransformationError list" where
  "parse_all_columns column_names = parse_all_columns_from 0 column_names"


section \<open>CSV loader\<close>

record NormalizedError =
  ne_code :: string
  ne_severity :: severity
  ne_message :: string
  ne_row_index :: "nat option"
  ne_column_index :: "nat option"
  ne_value :: "string option"

record CsvDialectInfo =
  delimiter :: string
  quotechar :: string
  escapechar :: "string option"
  doublequote :: bool
  skipinitialspace :: bool
  lineterminator :: string
  quoting :: int

text \<open>
  \<open>CsvContext\<close> without \<open>raw_data\<close> (never written) and \<open>data_stream\<close> (the generator that
  \<open>read_batches\<close> returns, modelled below by the batches it yields).
\<close>

record CsvContext =
  encoding :: string
  dialect :: CsvDialectInfo
  columns :: "string list"
  total_columns :: nat
  errors :: "NormalizedError list"
  label_row_present :: bool
  data_start_index :: nat

subsection \<open>Error factory\<close>

definition empty_file :: NormalizedError where
  "empty_file =
     \<lparr>ne_code = ''EMPTY_FILE'', ne_severity = FATAL,
      ne_message = ''Archivo CSV vac'' @ [CHR 0xED] @ ''o o sin contenido'',
      ne_row_index = None, ne_column_index = None, ne_value = None\<rparr>"

definition missing_header_row :: NormalizedError where
  "missing_header_row =
     \<lparr>ne_code = ''MISSING_HEADER_ROW'', ne_severity = FATAL,
      ne_message = ''No se encontr'' @ [CHR 0xF3] @ '' la fila de identificadores t'' @ [CHR 0xE9] @ ''cnicos (fila 1)'',
      ne_row_index = None, ne_column_index = None, ne_value = None\<rparr>"

definition empty_column_name :: "nat \<Rightarrow> nat \<Rightarrow> NormalizedError" where
  "empty_column_name row_index col_index =
     \<lparr>ne_code = ''EMPTY_COLUMN_NAME'', ne_severity = FATAL,
      ne_message = ''Nombre de columna vac'' @ [CHR 0xED] @ ''o en header'',
      ne_row_index = Some row_index, ne_column_index = Some col_index, ne_value = None\<rparr>"

definition duplicated_column :: "nat \<Rightarrow> nat \<Rightarrow> string \<Rightarrow> NormalizedError" where
  "duplicated_column row_index col_index column_name =
     \<lparr>ne_code = ''DUPLICATED_COLUMN'', ne_severity = FATAL,
      ne_message = ''Nombre de columna duplicado: '' @ [CHR 0x27] @ column_name @ [CHR 0x27],
      ne_row_index = Some row_index, ne_column_index = Some col_index, ne_value = Some column_name\<rparr>"

definition invalid_column_identifier :: "nat \<Rightarrow> nat \<Rightarrow> string \<Rightarrow> NormalizedError" where
  "invalid_column_identifier row_index col_index column_name =
     \<lparr>ne_code = ''INVALID_COLUMN_IDENTIFIER'', ne_severity = FATAL,
      ne_message = ''Identificador de columna no v'' @ [CHR 0xE1] @ ''lido: '' @ [CHR 0x27] @ column_name @ [CHR 0x27],
      ne_row_index = Some row_index, ne_column_index = Some col_index, ne_value = Some column_name\<rparr>"

definition label_column_mismatch :: "nat \<Rightarrow> nat \<Rightarrow> nat \<Rightarrow> NormalizedError" where
  "label_column_mismatch row_index expected actual =
     \<lparr>ne_code = ''LABEL_COLUMN_MISMATCH'', ne_severity = ERROR,
      ne_message = ''Fila de etiquetas tiene '' @ str_nat actual @ '' columnas, se esperaban '' @ str_nat expected,
      ne_row_index = Some row_index, ne_column_index = None, ne_value = None\<rparr>"

definition no_data_rows :: NormalizedError where
  "no_data_rows =
     \<lparr>ne_code = ''NO_DATA_ROWS'', ne_severity = WARNING,
      ne_message = ''Golden Record sin datos (solo header y labels)'',
      ne_row_index = None, ne_column_index = None, ne_value = None\<rparr>"

definition row_column_mismatch :: "nat \<Rightarrow> nat \<Rightarrow> nat \<Rightarrow> NormalizedError" where
  "row_column_mismatch row_index expected actual =
     \<lparr>ne_code = ''ROW_COLUMN_COUNT_MISMATCH'', ne_severity = ERROR,
      ne_message = ''Fila tiene '' @ str_nat actual @ '' columnas, se esperaban '' @ str_nat expected,
      ne_row_index = Some row_index, ne_column_index = None, ne_value = None\<rparr>"



subsection \<open>The file as the CSV reader delivers it\<close>

text \<open>
  \<open>csv.reader\<close> over the opened file is modelled by the records it yields, in file order
  (each a list of cells), and by the exception, if any, that it raises when asked for one
  more record after them. A file that cannot be opened has no records and an \<open>IOError\<close>.
\<close>

datatype read_failure = IOError string | CsvError string

record csv_source =
  records :: "string list list"
  failure :: "read_failure option"

subsection \<open>Structure detection\<close>

fun validate_header_cells :: "nat \<Rightarrow> string list \<Rightarrow> string list \<Rightarrow> NormalizedError option" where
  \<comment> \<open>the loop of \<open>_validate_header_row\<close>: index, \<open>seen_columns\<close>, remaining cells\<close>
  "validate_header_cells i seen_columns [] = None"
| "validate_header_cells i seen_columns (column # rest) =
     (if column = [] \<or> strip column = [] then Some (empty_column_name 0 i)
      else
        (let column_str = strip column
         in if column_str \<in> set seen_columns then Some (duplicated_column 0 i column_str)
            else if CHR ''_'' \<notin> set column_str then Some (invalid_column_identifier 0 i column_str)
            else validate_header_cells (Suc i) (column_str # seen_columns) rest))"

definition validate_header_row :: "string list \<Rightarrow> NormalizedError option" where
  "validate_header_row header_row =
     (if header_row = [] then Some missing_header_row
      else validate_header_cells 0 [] header_row)"

definition validate_data_row :: "string list \<Rightarrow> nat \<Rightarrow> nat \<Rightarrow> NormalizedError option" where
  "validate_data_row data_row expected_columns row_index =
     (if length data_row \<noteq> expected_columns
      then Some (row_column_mismatch row_index expected_columns (length data_row))
      else None)"

text \<open>
  The detection loop asks the reader for records until it has seen the fourth one, so a
  failure of the reader is met exactly when the file has at most three records.
\<close>

definition detect_structure ::
  "csv_source \<Rightarrow> string \<Rightarrow> CsvDialectInfo \<Rightarrow> CsvContext option \<times> NormalizedError option" where
  "detect_structure file enc dialect_info =
     (case (if length (records file) \<le> 3 then failure file else None) of
        Some (IOError e) \<Rightarrow>
          (None, Some \<lparr>ne_code = ''STRUCTURE_DETECTION_IO_ERROR'', ne_severity = FATAL,
                       ne_message = ''Error de E/S durante detecci'' @ [CHR 0xF3] @ ''n de estructura: '' @ e,
                       ne_row_index = None, ne_column_index = None, ne_value = None\<rparr>)
      | Some (CsvError e) \<Rightarrow>
          (None, Some \<lparr>ne_code = ''CSV_PARSING_ERROR'', ne_severity = FATAL,
                       ne_message = ''Error de parsing CSV: '' @ e,
                       ne_row_index = None, ne_column_index = None, ne_value = None\<rparr>)
      | None \<Rightarrow>
          (let rows = take 3 (records file)
           in if rows = [] then (None, Some empty_file)
              else
                (case validate_header_row (rows ! 0) of
                   Some header_error \<Rightarrow> (None, Some header_error)
                 | None \<Rightarrow>
                     (let n = length (rows ! 0);
                          label_errors =
                            (if length rows > 1 \<and> length (rows ! 1) \<noteq> n
                             then [label_column_mismatch 1 n (length (rows ! 1))] else []);
                          data_errors =
                            (if length rows > 2
                             then (case validate_data_row (rows ! 2) n 2 of
                                     Some data_error \<Rightarrow> [data_error] | None \<Rightarrow> [])
                             else [no_data_rows])
                      in (Some \<lparr>encoding = enc, dialect = dialect_info, columns = rows ! 0,
                                 total_columns = n, errors = label_errors @ data_errors,
                                 label_row_present = True, data_start_index = 2\<rparr>,
                          None)))))"

subsection \<open>Batch reader\<close>

definition BATCH_SIZE :: nat where
  "BATCH_SIZE = 10000"

text \<open>
  The body of the generator: the loop over the data records with its state, the running
  \<open>row_index\<close> and the current \<open>batch\<close>. It returns the batches yielded inside the loop,
  the errors appended, and the batch left when the records end.
\<close>

fun batch_loop ::
  "nat \<Rightarrow> nat \<Rightarrow> nat \<Rightarrow> string list list \<Rightarrow> string list list
    \<Rightarrow> string list list list \<times> NormalizedError list \<times> string list list" where
  "batch_loop batch_size n row_index batch [] = ([], [], batch)"
| "batch_loop batch_size n row_index batch (row # rest) =
     (if length row \<noteq> n then
        (case batch_loop batch_size n (row_index + 1) batch rest of
           (batches, errs, last_batch) \<Rightarrow>
             (batches, row_column_mismatch row_index n (length row) # errs, last_batch))
      else if length (batch @ [row]) \<ge> batch_size then
        (case batch_loop batch_size n (row_index + 1) [] rest of
           (batches, errs, last_batch) \<Rightarrow> ((batch @ [row]) # batches, errs, last_batch))
      else batch_loop batch_size n (row_index + 1) (batch @ [row]) rest)"

text \<open>
  \<open>read_batches\<close>, as the list of all batches the generator yields when it is consumed to
  its end, and the error list as it stands then. A failure of the reader leaves the loop
  before the last, partial batch is yielded.
\<close>

definition read_batches ::
  "csv_source \<Rightarrow> CsvContext \<Rightarrow> string list list list \<times> NormalizedError list" where
  "read_batches file context =
     (case batch_loop BATCH_SIZE (total_columns context) (data_start_index context) []
             (drop (data_start_index context) (records file)) of
        (batches, errs, last_batch) \<Rightarrow>
          (case failure file of
             None \<Rightarrow> (batches @ (if last_batch \<noteq> [] then [last_batch] else []), errs)
           | Some (IOError e) \<Rightarrow>
               (batches,
                errs @ [\<lparr>ne_code = ''BATCH_READER_IO_ERROR'', ne_severity = FATAL,
                          ne_message = ''Error de E/S durante lectura por lotes: '' @ e,
                          ne_row_index = None, ne_column_index = None, ne_value = None\<rparr>])
           | Some (CsvError e) \<Rightarrow>
               (batches,
                errs @ [\<lparr>ne_code = ''CSV_READING_ERROR'', ne_severity = FATAL,
                          ne_message = ''Error de lectura CSV: '' @ e,
                          ne_row_index = None, ne_column_index = None, ne_value = None\<rparr>])))"

subsection \<open>Encoding detection\<close>














section \<open>Transformer: entities and rows\<close>

text \<open>
  A Python \<open>dict\<close> is an association list in insertion order: \<open>map_of\<close> reads a key and
  \<open>dict_set\<close> assigns one, keeping the position of a key that is already present.
\<close>

fun dict_set :: "('k \<times> 'v) list \<Rightarrow> 'k \<Rightarrow> 'v \<Rightarrow> ('k \<times> 'v) list" where
  "dict_set [] k v = [(k, v)]"
| "dict_set ((k', v') # d) k v = (if k' = k then (k, v) # d else (k', v') # dict_set d k v)"

record EntityData =
  entity_id :: string
  ed_columns :: "ParsedColumn list"
  field_mapping :: "(string \<times> ParsedColumn) list"
  column_index_mapping :: "(nat \<times> ParsedColumn) list"

definition add_column :: "EntityData \<Rightarrow> nat \<Rightarrow> ParsedColumn \<Rightarrow> EntityData" where
  "add_column e index column =
     e\<lparr>ed_columns := ed_columns e @ [column],
       field_mapping := dict_set (field_mapping e) (field_id column) column,
       column_index_mapping := dict_set (column_index_mapping e) index column\<rparr>"

fun map_columns_from ::
  "nat \<Rightarrow> ParsedColumn list \<Rightarrow> (string \<times> EntityData) list \<times> (nat \<times> string) list
    \<Rightarrow> (string \<times> EntityData) list \<times> (nat \<times> string) list" where
  "map_columns_from col_index [] st = st"
| "map_columns_from col_index (column # rest) (entities, column_to_entity_map) =
     (let eid = element_id column;
          e = (case map_of entities eid of
                 None \<Rightarrow> \<lparr>entity_id = eid, ed_columns = [], field_mapping = [], column_index_mapping = []\<rparr>
               | Some e \<Rightarrow> e)
      in map_columns_from (Suc col_index) rest
           (dict_set entities eid (add_column e col_index column),
            dict_set column_to_entity_map col_index eid))"

definition map_columns_to_entities ::
  "ParsedColumn list \<Rightarrow> (string \<times> EntityData) list \<times> (nat \<times> string) list" where
  \<comment> \<open>the error list of the source stays empty: a parsed column is never \<open>None\<close>\<close>
  "map_columns_to_entities parsed_columns = map_columns_from 0 parsed_columns ([], [])"

record TransformedRow =
  original_row_index :: nat
  csv_row_index :: nat
  data_by_entity :: "(string \<times> (string \<times> string) list) list"
  raw_values :: "string list"
  tr_errors :: "TransformationError list"

definition row_transformation_error :: "nat \<Rightarrow> nat \<Rightarrow> string \<Rightarrow> TransformationError" where
  "row_transformation_error row_index col_index error_msg =
     \<lparr>te_code = ''ROW_TRANSFORMATION_ERROR'', te_severity = ERROR,
      te_message = ''Error transformando fila '' @ str_nat row_index @ '', columna '' @ str_nat col_index
                   @ '': '' @ error_msg,
      te_row_index = Some row_index, te_column_name = Some (''col_'' @ str_nat col_index),
      te_value = None, te_details = None\<rparr>"

definition store_value ::
  "(string \<times> (string \<times> string) list) list \<Rightarrow> string \<Rightarrow> string \<Rightarrow> string
    \<Rightarrow> (string \<times> (string \<times> string) list) list" where
  \<comment> \<open>\<open>data_by_entity[entity_id][field_id] = value\<close>; the entity key is always present here,
      since every key of \<open>entities\<close> is initialised before the cells are processed\<close>
  "store_value data eid fid v =
     (case map_of data eid of
        None \<Rightarrow> data
      | Some fs \<Rightarrow> dict_set data eid (dict_set fs fid v))"

fun transform_cells ::
  "nat \<Rightarrow> (nat \<times> string) list \<Rightarrow> (string \<times> EntityData) list \<Rightarrow> nat \<Rightarrow> string list
    \<Rightarrow> (string \<times> (string \<times> string) list) list \<times> TransformationError list
    \<Rightarrow> (string \<times> (string \<times> string) list) list \<times> TransformationError list" where
  "transform_cells row_index column_to_entity_map entities col_index [] st = st"
| "transform_cells row_index column_to_entity_map entities col_index (v # rest) (data, errs) =
     transform_cells row_index column_to_entity_map entities (Suc col_index) rest
       (if col_index \<ge> length column_to_entity_map then
          (data, errs @ [row_transformation_error row_index col_index
                   ([CHR 0xCD] @ ''ndice de columna '' @ str_nat col_index @ '' fuera de rango'')])
        else
          (case map_of column_to_entity_map col_index of
             None \<Rightarrow>
               (data, errs @ [row_transformation_error row_index col_index ''Columna no mapeada a entidad''])
           | Some eid \<Rightarrow>
               if eid = [] then
                 (data, errs @ [row_transformation_error row_index col_index ''Columna no mapeada a entidad''])
               else
                 (case map_of entities eid of
                    None \<Rightarrow>
                      (data, errs @ [row_transformation_error row_index col_index
                               (''Entidad '' @ [CHR 0x27] @ eid @ [CHR 0x27] @ '' no encontrada'')])
                  | Some entity_data \<Rightarrow>
                      (case map_of (column_index_mapping entity_data) col_index of
                         None \<Rightarrow>
                           (data, errs @ [row_transformation_error row_index col_index
                                    (''Columna no encontrada en entidad '' @ [CHR 0x27] @ eid @ [CHR 0x27])])
                       | Some column_info \<Rightarrow>
                           (store_value data eid (field_id column_info) v, errs)))))"

definition transform_row ::
  "string list \<Rightarrow> nat \<Rightarrow> nat \<Rightarrow> (nat \<times> string) list \<Rightarrow> (string \<times> EntityData) list \<Rightarrow> TransformedRow" where
  "transform_row row_values row_index csv_start_index column_to_entity_map entities =
     (case transform_cells row_index column_to_entity_map entities 0 row_values
             (map (\<lambda>(eid, _). (eid, [])) entities, []) of
        (data, errs) \<Rightarrow>
          \<lparr>original_row_index = row_index, csv_row_index = csv_start_index + row_index,
           data_by_entity = data, raw_values = row_values, tr_errors = errs\<rparr>)"

definition transform_batch ::
  "string list list \<Rightarrow> nat \<Rightarrow> nat \<Rightarrow> (nat \<times> string) list \<Rightarrow> (string \<times> EntityData) list
    \<Rightarrow> TransformedRow list" where
  "transform_batch batch_rows batch_index csv_start_index column_to_entity_map entities =
     map (\<lambda>(row_offset, row_values).
            transform_row row_values (batch_index * length batch_rows + row_offset)
              csv_start_index column_to_entity_map entities)
         (enumerate 0 batch_rows)"

text \<open>
  The loop of \<open>execute_validation\<close> (and of \<open>validate_all_batches\<close>) over the batch stream:
  each batch is transformed with the running \<open>batch_index\<close>, which then advances by one.
\<close>

fun transform_stream ::
  "nat \<Rightarrow> string list list list \<Rightarrow> nat \<Rightarrow> (nat \<times> string) list \<Rightarrow> (string \<times> EntityData) list
    \<Rightarrow> TransformedRow list list" where
  "transform_stream batch_index [] csv_start_index column_to_entity_map entities = []"
| "transform_stream batch_index (raw_batch # rest) csv_start_index column_to_entity_map entities =
     transform_batch raw_batch batch_index csv_start_index column_to_entity_map entities
       # transform_stream (Suc batch_index) rest csv_start_index column_to_entity_map entities"

subsection \<open>Transformation context\<close>

text \<open>\<open>TransformationContext\<close> without its informational \<open>metadata\<close> dictionary.\<close>

record TransformationContext =
  csv_context :: CsvContext
  parsed_columns :: "ParsedColumn list"
  tc_entities :: "(string \<times> EntityData) list"
  column_to_entity_map :: "(nat \<times> string) list"
  tc_errors :: "TransformationError list"

fun count_fields :: "ParsedColumn list \<Rightarrow> (string \<times> nat) list \<Rightarrow> (string \<times> nat) list" where
  "count_fields [] field_counts = field_counts"
| "count_fields (column # rest) field_counts =
     count_fields rest
       (dict_set field_counts (field_id column)
          ((case map_of field_counts (field_id column) of None \<Rightarrow> 0 | Some c \<Rightarrow> c) + 1))"

definition validate_entity_structure :: "(string \<times> EntityData) list \<Rightarrow> TransformationError list" where
  "validate_entity_structure entities =
     concat (map (\<lambda>(eid, entity_data).
       (if ed_columns entity_data = []
        then [\<lparr>te_code = ''EMPTY_ENTITY'', te_severity = WARNING,
               te_message = ''Entidad '' @ [CHR 0x27] @ eid @ [CHR 0x27] @ '' no tiene columnas asignadas'',
               te_row_index = None, te_column_name = None, te_value = None,
               te_details = Some [(''entity_id'', eid)]\<rparr>]
        else [])
       @ concat (map (\<lambda>(fid, n).
           if n > 1
           then [\<lparr>te_code = ''DUPLICATE_FIELD_IN_ENTITY'', te_severity = WARNING,
                  te_message = ''Campo '' @ [CHR 0x27] @ fid @ [CHR 0x27] @ '' aparece '' @ str_nat n
                               @ '' veces en entidad '' @ [CHR 0x27] @ eid @ [CHR 0x27],
                  te_row_index = None, te_column_name = None, te_value = None,
                  te_details = Some [(''entity_id'', eid), (''field_id'', fid), (''count'', str_nat n)]\<rparr>]
           else [])
         (count_fields (ed_columns entity_data) [])))
       entities)"

definition transform_csv_context :: "CsvContext \<Rightarrow> TransformationContext option \<times> string option" where
  "transform_csv_context csv_ctx =
     (case parse_all_columns (columns csv_ctx) of
        (pcs, parse_errors) \<Rightarrow>
          if pcs = [] then (None, Some ''No se pudieron parsear columnas del CSV'')
          else
            (case map_columns_to_entities pcs of
               (entities, c2e) \<Rightarrow>
                 (Some \<lparr>csv_context = csv_ctx, parsed_columns = pcs, tc_entities = entities,
                         column_to_entity_map = c2e,
                         tc_errors = parse_errors @ validate_entity_structure entities\<rparr>,
                  None)))"

section \<open>Comparator: metadata\<close>

datatype ValidationScope = GLOBAL | ENTITY | ROW | FIELD

text \<open>The \<open>expected\<close> and \<open>actual\<close> entries of an error hold a string or an integer.\<close>

datatype py_any = PStr string | PInt int

record ValidationError =
  ve_code :: string
  ve_severity :: severity
  ve_message :: string
  ve_scope :: ValidationScope
  ve_row_index :: "nat option"
  ve_csv_row_index :: "nat option"
  ve_entity_id :: "string option"
  ve_field_id :: "string option"
  ve_column_name :: "string option"
  ve_expected :: "py_any option"
  ve_actual :: "py_any option"
  ve_metadata_path :: "string option"
  ve_details :: "(string \<times> string) list option"
  ve_person_id_external :: "string option"

text \<open>
  \<open>FieldMetadata\<close> without \<open>metadata_node\<close>, the reference back to the schema node, which
  nothing reads. \<open>MetadataContext\<close> without \<open>stats\<close>.
\<close>

record FieldMetadata =
  fm_element_id :: string
  fm_field_id :: string
  fm_full_path :: string
  is_required :: bool
  data_type :: "string option"
  max_length :: "int option"
  pattern :: "string option"
  allowed_values :: "string list option"
  fm_is_country_specific :: bool
  fm_country_code :: "string option"
  fm_attributes :: "(string \<times> string) list"

record EntityMetadata =
  em_entity_id :: string
  em_fields :: "(string \<times> FieldMetadata) list"
  required_fields :: "string list"
  em_is_country_specific :: bool
  em_country_code :: "string option"

record MetadataContext =
  source_instance :: string
  source_version :: string
  mc_entities :: "(string \<times> EntityMetadata) list"
  field_by_full_path :: "(string \<times> FieldMetadata) list"

subsection \<open>The schema tree and its walk\<close>

text \<open>
  A node of the serialized schema tree: tag, technical identifier, attribute map, node type
  and children; a missing \<open>technical_id\<close>, \<open>tag\<close> or \<open>node_type\<close> is the empty string, as
  the defaults of the source make it. Attribute values are strings.
\<close>

datatype node = Node (tag: string) (technical_id: string) (attributes: "(string \<times> string) list")
  (node_type: string) (children: "node list")

definition str_int :: "int \<Rightarrow> string" where
  "str_int i = (if i < 0 then ''-'' @ str_nat (nat (- i)) else str_nat (nat i))"

definition is_digit :: "char \<Rightarrow> bool" where
  "is_digit c = (let n = (of_char c :: nat) in 48 \<le> n \<and> n \<le> 57)"

definition digits_value :: "string \<Rightarrow> nat" where
  "digits_value ds = foldl (\<lambda>acc c. 10 * acc + ((of_char c :: nat) - 48)) 0 ds"

definition py_int :: "string \<Rightarrow> int option" where
  \<comment> \<open>Python's \<open>int(s)\<close>; \<open>None\<close> stands for \<open>ValueError\<close>. An optional sign, then groups of
      digits separated by single underscores, white space around them.\<close>
  "py_int s =
     (let t = strip s;
          (negative, body) =
            (case t of
               c # cs \<Rightarrow> if c = CHR ''-'' then (True, cs) else if c = CHR ''+'' then (False, cs) else (False, t)
             | [] \<Rightarrow> (False, t));
          groups = split_on (CHR ''_'') body
      in if list_all (\<lambda>g. g \<noteq> [] \<and> list_all is_digit g) groups
         then Some (if negative then - int (digits_value (concat groups)) else int (digits_value (concat groups)))
         else None)"

definition parse_max_length :: "string option \<Rightarrow> int option" where
  "parse_max_length max_length_str =
     (case max_length_str of
        None \<Rightarrow> None
      | Some s \<Rightarrow> if s = [] then None else py_int (strip s))"

definition add_required :: "string list \<Rightarrow> string \<Rightarrow> string list" where
  \<comment> \<open>\<open>required_fields.add(field_id)\<close> on a set kept as a list without duplicates\<close>
  "add_required rf f = (if f \<in> set rf then rf else rf @ [f])"

definition get_or_empty :: "(string \<times> string) list \<Rightarrow> string \<Rightarrow> string" where
  \<comment> \<open>\<open>attributes.get(key, "")\<close>\<close>
  "get_or_empty attrs key = (case map_of attrs key of Some v \<Rightarrow> v | None \<Rightarrow> [])"

definition node_id :: "string \<Rightarrow> (string \<times> string) list \<Rightarrow> string" where
  \<comment> \<open>\<open>technical_id or attributes.get("id", "")\<close>\<close>
  "node_id tid attrs = (if tid \<noteq> [] then tid else get_or_empty attrs ''id'')"

text \<open>
  The three parts of a step of the walk, \<open>_extract_field_metadata\<close> (the walk over the
  dictionary form) and \<open>process_node\<close> in \<open>_extract_from_xml_document\<close> (the same walk over
  the node objects): the \<open>hris-element\<close> branch, the \<open>hris-field\<close> branch and the branch for
  other nodes of type \<open>element\<close>. The state is the metadata context and the current
  \<open>parent_element\<close>.
\<close>

definition enter_element ::
  "string \<Rightarrow> (string \<times> string) list \<Rightarrow> MetadataContext \<times> string option
    \<Rightarrow> MetadataContext \<times> string option" where
  "enter_element tid attrs st =
     (case st of (mc, parent_element) \<Rightarrow>
        (let eid = node_id tid attrs
         in if eid = [] then (mc, parent_element)
            else
              (let data_country = map_of attrs ''data-country'';
                   data_origin = get_or_empty attrs ''data-origin'';
                   cc = (if data_country \<in> {Some [], Some ''UNKNOWN'', None} then None else data_country);
                   is_cs = (data_origin = ''csf'' \<and> cc \<noteq> None)
               in ((if map_of (mc_entities mc) eid = None
                    then mc\<lparr>mc_entities := dict_set (mc_entities mc) eid
                             \<lparr>em_entity_id = eid, em_fields = [], required_fields = [],
                              em_is_country_specific = is_cs, em_country_code = cc\<rparr>\<rparr>
                    else mc),
                   Some eid))))"

definition enter_other_element ::
  "string \<Rightarrow> MetadataContext \<times> string option \<Rightarrow> MetadataContext \<times> string option" where
  \<comment> \<open>a node of type \<open>element\<close> with a technical id whose tag is neither of the two above\<close>
  "enter_other_element tid st =
     (case st of (mc, parent_element) \<Rightarrow>
        ((if map_of (mc_entities mc) tid = None
             \<and> startswith_any tid [''workPermitInfo_'', ''homeAddress_'']
          then mc\<lparr>mc_entities := dict_set (mc_entities mc) tid
                   \<lparr>em_entity_id = tid, em_fields = [], required_fields = [],
                    em_is_country_specific = False, em_country_code = None\<rparr>\<rparr>
          else mc),
         Some tid))"

definition add_field_to_entity ::
  "(string \<times> EntityMetadata) list \<Rightarrow> string \<Rightarrow> string \<Rightarrow> FieldMetadata \<Rightarrow> bool
    \<Rightarrow> (string \<times> EntityMetadata) list" where
  \<comment> \<open>\<open>entities[eid].fields[fid] = fm\<close>, and \<open>required_fields.add(fid)\<close> when required\<close>
  "add_field_to_entity ents eid fid fm required =
     (case map_of ents eid of
        None \<Rightarrow> ents
      | Some e \<Rightarrow>
          dict_set ents eid
            (e\<lparr>em_fields := dict_set (em_fields e) fid fm,
               required_fields := (if required then add_required (required_fields e) fid
                                   else required_fields e)\<rparr>))"

definition scoped_country :: "MetadataContext \<Rightarrow> string \<Rightarrow> string option" where
  \<comment> \<open>the country code when \<open>parent in entities\<close> and
      \<open>entity_meta.is_country_specific and entity_meta.country_code\<close>\<close>
  "scoped_country mc parent =
     (case map_of (mc_entities mc) parent of
        Some entity_meta \<Rightarrow>
          (if em_is_country_specific entity_meta
                \<and> em_country_code entity_meta \<noteq> None
                \<and> em_country_code entity_meta \<noteq> Some []
           then em_country_code entity_meta else None)
      | None \<Rightarrow> None)"

definition register_scoped_field ::
  "MetadataContext \<Rightarrow> string \<Rightarrow> string \<Rightarrow> string \<Rightarrow> (string \<times> string) list \<Rightarrow> MetadataContext" where
  \<comment> \<open>the branch of a field under a country-scoped entity: two records, two index entries,
      the synthesized entity with the country prefix\<close>
  "register_scoped_field mc parent fid cc attrs =
     (let required = (py_lower (case map_of attrs ''required'' of Some v \<Rightarrow> v | None \<Rightarrow> ''false'') = ''true'');
          dtype = map_of attrs ''type'';
          mlen = parse_max_length (map_of attrs ''max-length'');
          internal_full_path = parent @ ''_'' @ fid;
          csv_full_path = cc @ ''_'' @ parent @ ''_'' @ fid;
          internal_field_metadata =
            \<lparr>fm_element_id = parent, fm_field_id = fid, fm_full_path = internal_full_path,
             is_required = required, data_type = dtype, max_length = mlen,
             pattern = map_of attrs ''pattern'', allowed_values = None,
             fm_is_country_specific = True, fm_country_code = Some cc,
             fm_attributes = attrs\<rparr>;
          csv_field_metadata =
            \<lparr>fm_element_id = cc @ ''_'' @ parent, fm_field_id = fid, fm_full_path = csv_full_path,
             is_required = required, data_type = dtype, max_length = mlen,
             pattern = map_of attrs ''pattern'', allowed_values = None,
             fm_is_country_specific = True, fm_country_code = Some cc,
             fm_attributes = attrs\<rparr>;
          country_element_id = cc @ ''_'' @ parent;
          ents1 =
            (if map_of (mc_entities mc) country_element_id = None
             then dict_set (mc_entities mc) country_element_id
                    \<lparr>em_entity_id = country_element_id, em_fields = [], required_fields = [],
                     em_is_country_specific = True, em_country_code = Some cc\<rparr>
             else mc_entities mc);
          ents2 = add_field_to_entity ents1 parent fid internal_field_metadata required;
          ents3 = add_field_to_entity ents2 country_element_id fid csv_field_metadata required
      in mc\<lparr>mc_entities := ents3,
            field_by_full_path :=
              dict_set (dict_set (field_by_full_path mc) internal_full_path internal_field_metadata)
                csv_full_path csv_field_metadata\<rparr>)"

definition register_plain_field ::
  "MetadataContext \<Rightarrow> string \<Rightarrow> string \<Rightarrow> (string \<times> string) list \<Rightarrow> MetadataContext" where
  \<comment> \<open>the branch of a field under an entity that is not country-scoped, or not registered\<close>
  "register_plain_field mc parent fid attrs =
     (let required = (py_lower (case map_of attrs ''required'' of Some v \<Rightarrow> v | None \<Rightarrow> ''false'') = ''true'');
          dtype = map_of attrs ''type'';
          mlen = parse_max_length (map_of attrs ''max-length'');
          full_path = parent @ ''_'' @ fid;
          field_metadata =
            \<lparr>fm_element_id = parent, fm_field_id = fid, fm_full_path = full_path,
             is_required = required, data_type = dtype, max_length = mlen,
             pattern = map_of attrs ''pattern'', allowed_values = None,
             fm_is_country_specific =
               startswith_any parent [''MEX_'', ''USA_'', ''BRA_'', ''NADRO_''],
             fm_country_code =
               (if CHR ''_'' \<in> set parent then Some (split_on (CHR ''_'') parent ! 0) else None),
             fm_attributes = attrs\<rparr>
      in mc\<lparr>mc_entities := add_field_to_entity (mc_entities mc) parent fid field_metadata required,
            field_by_full_path := dict_set (field_by_full_path mc) full_path field_metadata\<rparr>)"

definition process_field ::
  "string \<Rightarrow> (string \<times> string) list \<Rightarrow> MetadataContext \<times> string option
    \<Rightarrow> MetadataContext \<times> string option" where
  "process_field tid attrs st =
     (case st of (mc, parent_element) \<Rightarrow>
        (case parent_element of
           None \<Rightarrow> (mc, parent_element)
         | Some parent \<Rightarrow>
             if parent = [] then (mc, parent_element)
             else
               (let fid = node_id tid attrs
                in if fid = [] then (mc, parent_element)
                   else
                     (case scoped_country mc parent of
                        Some cc \<Rightarrow> (register_scoped_field mc parent fid cc attrs, parent_element)
                      | None \<Rightarrow> (register_plain_field mc parent fid attrs, parent_element)))))"

fun extract_field_metadata :: "node \<Rightarrow> MetadataContext \<times> string option \<Rightarrow> MetadataContext \<times> string option"
  and extract_children :: "node list \<Rightarrow> MetadataContext \<times> string option \<Rightarrow> MetadataContext \<times> string option"
where
  "extract_field_metadata (Node tg tid attrs ntype chs) st =
     (if contains_str ''hris-element'' (py_lower tg) then extract_children chs (enter_element tid attrs st)
      else if contains_str ''hris-field'' (py_lower tg) then process_field tid attrs st
      else if ntype = ''element'' \<and> tid \<noteq> [] then extract_children chs (enter_other_element tid st)
      else extract_children chs st)"
| "extract_children [] st = st"
| "extract_children (child # rest) st = extract_children rest (extract_field_metadata child st)"

definition adapt_parsed_metadata :: "string \<Rightarrow> string \<Rightarrow> node \<Rightarrow> MetadataContext" where
  \<comment> \<open>the walk from the root over an empty context\<close>
  "adapt_parsed_metadata instance_id version structure =
     fst (extract_field_metadata structure
            (\<lparr>source_instance = instance_id, source_version = version, mc_entities = [],
              field_by_full_path = []\<rparr>, None))"

section \<open>Comparator: rules and the rule engine\<close>

record ValidationContext =
  transform_context :: TransformationContext
  metadata_context :: MetadataContext
  enabled_rules :: "string list"

subsection \<open>Error factory\<close>

definition missing_metadata_for_field :: "string \<Rightarrow> ValidationError" where
  "missing_metadata_for_field field_path =
     \<lparr>ve_code = ''MISSING_METADATA_FOR_FIELD'', ve_severity = WARNING,
      ve_message = ''No se encontr'' @ [CHR 0xF3] @ '' metadata para campo: '' @ field_path,
      ve_scope = GLOBAL, ve_row_index = None, ve_csv_row_index = None, ve_entity_id = None,
      ve_field_id = None, ve_column_name = None, ve_expected = None, ve_actual = None,
      ve_metadata_path = Some field_path, ve_details = None, ve_person_id_external = None\<rparr>"

definition required_value_missing ::
  "nat \<Rightarrow> nat \<Rightarrow> string \<Rightarrow> string \<Rightarrow> string \<Rightarrow> string option \<Rightarrow> ValidationError" where
  "required_value_missing ri cri eid fid column_name person_id_external =
     \<lparr>ve_code = ''REQUIRED_VALUE_MISSING'', ve_severity = ERROR,
      ve_message = ''Valor requerido faltante en '' @ eid @ ''.'' @ fid,
      ve_scope = ROW, ve_row_index = Some ri, ve_csv_row_index = Some cri,
      ve_entity_id = Some eid, ve_field_id = Some fid, ve_column_name = Some column_name,
      ve_expected = None, ve_actual = None, ve_metadata_path = None, ve_details = None,
      ve_person_id_external = person_id_external\<rparr>"

definition max_length_exceeded ::
  "nat \<Rightarrow> nat \<Rightarrow> string \<Rightarrow> string \<Rightarrow> string \<Rightarrow> int \<Rightarrow> nat \<Rightarrow> string \<Rightarrow> string option
    \<Rightarrow> ValidationError" where
  "max_length_exceeded ri cri eid fid column_name mlen actual_length v person_id_external =
     \<lparr>ve_code = ''MAX_LENGTH_EXCEEDED'', ve_severity = ERROR,
      ve_message = ''Longitud m'' @ [CHR 0xE1] @ ''xima excedida en '' @ eid @ ''.'' @ fid @ '': m''
                   @ [CHR 0xE1] @ ''ximo '' @ str_int mlen @ '', actual '' @ str_nat actual_length,
      ve_scope = FIELD, ve_row_index = Some ri, ve_csv_row_index = Some cri,
      ve_entity_id = Some eid, ve_field_id = Some fid, ve_column_name = Some column_name,
      ve_expected = Some (PInt mlen), ve_actual = Some (PInt (int actual_length)),
      ve_metadata_path = None,
      ve_details = Some [(''truncated_value'', if length v > 50 then take 50 v @ ''...'' else v)],
      ve_person_id_external = person_id_external\<rparr>"

definition rule_execution_failed :: "string \<Rightarrow> string \<Rightarrow> string option \<Rightarrow> ValidationError" where
  "rule_execution_failed rid details person_id_external =
     \<lparr>ve_code = ''RULE_EXECUTION_FAILED'', ve_severity = FATAL,
      ve_message = ''Fallo en ejecuci'' @ [CHR 0xF3] @ ''n de regla '' @ [CHR 0x27] @ rid @ [CHR 0x27] @ '': '' @ details,
      ve_scope = GLOBAL, ve_row_index = None, ve_csv_row_index = None, ve_entity_id = None,
      ve_field_id = None, ve_column_name = None, ve_expected = None, ve_actual = None,
      ve_metadata_path = None, ve_details = Some [(''rule_id'', rid)],
      ve_person_id_external = person_id_external\<rparr>"

subsection \<open>The rule contract\<close>

text \<open>
  A call of a rule either returns or raises an exception (an instance of \<open>Exception\<close>, given
  by its text \<open>str(e)\<close>). The keyword arguments of \<open>validate\<close> are a record; the engine calls
  a global or entity rule with all of them \<open>None\<close>.
\<close>

datatype 'a outcome = Raised string | Returned 'a

record rule_args =
  a_entity_id :: "string option"
  a_field_metadata :: "FieldMetadata option"
  a_value :: "string option"
  a_row_index :: "nat option"
  a_csv_row_index :: "nat option"
  a_column_name :: "string option"
  a_person_id_external :: "string option"


record Rule =
  rule_id :: string
  description :: string
  scope :: ValidationScope
  validate :: "ValidationContext \<Rightarrow> rule_args \<Rightarrow> ValidationError list outcome"
  should_skip :: "FieldMetadata option \<Rightarrow> string option \<Rightarrow> bool outcome"

definition NotNullRule :: Rule where
  "NotNullRule =
     \<lparr>rule_id = ''not_null'',
      description = ''Valida que campos requeridos no sean nulos/vac'' @ [CHR 0xED] @ ''os'',
      scope = FIELD,
      validate = (\<lambda>context args.
        case a_field_metadata args of
          None \<Rightarrow> Returned []
        | Some fm \<Rightarrow>
            if \<not> is_required fm then Returned []
            else
              (case (a_entity_id args, a_row_index args, a_csv_row_index args) of
                 (Some eid, Some ri, Some cri) \<Rightarrow>
                   if (case a_value args of None \<Rightarrow> True | Some v \<Rightarrow> strip v = [])
                   then Returned [required_value_missing ri cri eid (fm_field_id fm)
                                    (case a_column_name args of
                                       None \<Rightarrow> eid @ ''_'' @ fm_field_id fm
                                     | Some cn \<Rightarrow> if cn = [] then eid @ ''_'' @ fm_field_id fm else cn)
                                    (a_person_id_external args)]
                   else Returned []
               | _ \<Rightarrow> Returned [])),
      should_skip = (\<lambda>field_metadata v.
        case field_metadata of
          Some fm \<Rightarrow> Returned (\<not> is_required fm)
        | None \<Rightarrow> Returned False)\<rparr>"

definition MaxLengthRule :: Rule where
  "MaxLengthRule =
     \<lparr>rule_id = ''max_length'',
      description = ''Valida longitud m'' @ [CHR 0xE1] @ ''xima seg'' @ [CHR 0xFA] @ ''n metadata'',
      scope = FIELD,
      validate = (\<lambda>context args.
        case a_field_metadata args of
          None \<Rightarrow> Returned []
        | Some fm \<Rightarrow>
            (case max_length fm of
               None \<Rightarrow> Returned []
             | Some mlen \<Rightarrow>
                 (case a_value args of
                    None \<Rightarrow> Returned []
                  | Some v \<Rightarrow>
                      (case (a_entity_id args, a_row_index args, a_csv_row_index args) of
                         (Some eid, Some ri, Some cri) \<Rightarrow>
                           if int (length v) > mlen
                           then Returned [max_length_exceeded ri cri eid (fm_field_id fm)
                                            (case a_column_name args of
                                               None \<Rightarrow> eid @ ''_'' @ fm_field_id fm
                                             | Some cn \<Rightarrow> if cn = [] then eid @ ''_'' @ fm_field_id fm else cn)
                                            mlen (length v) v (a_person_id_external args)]
                           else Returned []
                       | _ \<Rightarrow> Returned [])))),
      should_skip = (\<lambda>field_metadata v.
        case field_metadata of
          None \<Rightarrow> Returned True
        | Some fm \<Rightarrow>
            if max_length fm = None then Returned True
            else if v = None then Returned True
            else Returned False)\<rparr>"

subsection \<open>Registry and engine\<close>

record RuleConfiguration =
  rc_rule_id :: string
  rc_enabled :: bool
  rc_scope :: ValidationScope

record RuleRegistry =
  rule_instances :: "(string \<times> Rule) list"
  configurations :: "(string \<times> RuleConfiguration) list"

definition get_enabled_rules :: "RuleRegistry \<Rightarrow> ValidationScope option \<Rightarrow> Rule list" where
  "get_enabled_rules registry sc =
     map snd
       (filter (\<lambda>(rid, instance).
                  case map_of (configurations registry) rid of
                    None \<Rightarrow> False
                  | Some config \<Rightarrow> rc_enabled config \<and> (sc = None \<or> sc = Some (scope instance)))
          (rule_instances registry))"

record RuleEngine =
  global_rules :: "Rule list"
  entity_rules :: "Rule list"
  field_rules :: "Rule list"

definition categorize_rules :: "RuleRegistry \<Rightarrow> RuleEngine" where
  \<comment> \<open>the constructor of \<open>RuleEngine\<close> with \<open>_categorize_rules\<close>\<close>
  "categorize_rules registry =
     \<lparr>global_rules = get_enabled_rules registry (Some GLOBAL),
      entity_rules = get_enabled_rules registry (Some ENTITY),
      field_rules = get_enabled_rules registry (Some FIELD)\<rparr>"




fun find_index_from :: "nat \<Rightarrow> ('a \<Rightarrow> bool) \<Rightarrow> 'a list \<Rightarrow> nat option" where
  "find_index_from idx P [] = None"
| "find_index_from idx P (x # xs) = (if P x then Some idx else find_index_from (Suc idx) P xs)"

definition find_person_id_external_column_index :: "ValidationContext \<Rightarrow> nat option" where
  \<comment> \<open>the search in \<open>csv_context.headers\<close> never applies: \<open>CsvContext\<close> has no such attribute\<close>
  "find_person_id_external_column_index context =
     find_index_from 0
       (\<lambda>parsed_col. element_id parsed_col = ''personInfo'' \<and> field_id parsed_col = ''person-id-external'')
       (parsed_columns (transform_context context))"

definition get_column_name :: "ValidationContext \<Rightarrow> string \<Rightarrow> string \<Rightarrow> string option" where
  "get_column_name context eid fid =
     (case map_of (tc_entities (transform_context context)) eid of
        None \<Rightarrow> None
      | Some entity_data \<Rightarrow>
          (case map_of (field_mapping entity_data) fid of
             None \<Rightarrow> None
           | Some parsed_col \<Rightarrow> Some (original_name parsed_col)))"

definition truthy :: "string option \<Rightarrow> bool" where
  \<comment> \<open>\<open>if column_name:\<close> on an optional string\<close>
  "truthy s = (s \<noteq> None \<and> s \<noteq> Some [])"

definition split_once :: "char \<Rightarrow> string \<Rightarrow> string list" where
  \<comment> \<open>\<open>s.split(sep, 1)\<close>\<close>
  "split_once sep s =
     (if sep \<in> set s then [takeWhile (\<lambda>c. c \<noteq> sep) s, tl (dropWhile (\<lambda>c. c \<noteq> sep) s)] else [s])"

definition replace_char :: "char \<Rightarrow> char \<Rightarrow> string \<Rightarrow> string" where
  "replace_char a b s = map (\<lambda>c. if c = a then b else c) s"

fun unique_patterns :: "string list \<Rightarrow> string list \<Rightarrow> string list" where
  \<comment> \<open>the last loop of \<open>_build_field_search_patterns\<close>, with its accumulator\<close>
  "unique_patterns [] acc = acc"
| "unique_patterns (p # ps) acc =
     unique_patterns ps (if p \<noteq> [] \<and> p \<notin> set acc then acc @ [p] else acc)"

definition build_field_search_patterns :: "string \<Rightarrow> string \<Rightarrow> string option \<Rightarrow> string list" where
  "build_field_search_patterns eid fid column_name =
     unique_patterns
       ([eid @ ''_'' @ fid]
        @ (if startswith_any eid [''MEX_'', ''USA_'', ''BRA_'', ''CAN_'']
           then (let parts = split_once (CHR ''_'') eid
                 in if length parts = 2 then [parts ! 1 @ ''_'' @ fid] else [])
           else [])
        @ (case column_name of
             None \<Rightarrow> []
           | Some cn \<Rightarrow> if cn = [] then [] else [cn, replace_char (CHR ''_'') (CHR ''.'') cn])
        @ (case column_name of
             None \<Rightarrow> []
           | Some cn \<Rightarrow> if cn \<noteq> [] \<and> startswith_any cn [''MEX_'', ''USA_'', ''BRA_''] then [cn] else []))
       []"

fun first_pattern_hit :: "(string \<times> FieldMetadata) list \<Rightarrow> string list \<Rightarrow> FieldMetadata option" where
  \<comment> \<open>the loop over the search patterns, left at the first pattern in the index\<close>
  "first_pattern_hit index [] = None"
| "first_pattern_hit index (p # ps) =
     (case map_of index p of Some fm \<Rightarrow> Some fm | None \<Rightarrow> first_pattern_hit index ps)"

definition entity_field_lookup :: "MetadataContext \<Rightarrow> string \<Rightarrow> string \<Rightarrow> FieldMetadata option" where
  \<comment> \<open>\<open>entities[entity_id].fields.get(field_id)\<close> when \<open>entity_id in entities\<close>\<close>
  "entity_field_lookup mc eid fid =
     (case map_of (mc_entities mc) eid of
        None \<Rightarrow> None
      | Some entity_metadata \<Rightarrow> map_of (em_fields entity_metadata) fid)"

fun run_field_rules ::
  "Rule list \<Rightarrow> ValidationContext \<Rightarrow> string \<Rightarrow> string \<Rightarrow> FieldMetadata \<Rightarrow> string option \<Rightarrow> rule_args
    \<Rightarrow> ValidationError list \<Rightarrow> ValidationError list" where
  \<comment> \<open>the loop over \<open>self._field_rules\<close> in \<open>_validate_field\<close>, with its accumulator\<close>
  "run_field_rules [] context eid fid fm v args errs = errs"
| "run_field_rules (rule # rest) context eid fid fm v args errs =
     run_field_rules rest context eid fid fm v args
       (case should_skip rule (Some fm) v of
          Raised e \<Rightarrow>
            errs @ [rule_execution_failed (rule_id rule) (''field '' @ eid @ ''.'' @ fid @ '': '' @ e) None]
        | Returned True \<Rightarrow> errs
        | Returned False \<Rightarrow>
            (case validate rule context args of
               Returned rule_errors \<Rightarrow> errs @ rule_errors
             | Raised e \<Rightarrow>
                 errs @ [rule_execution_failed (rule_id rule) (''field '' @ eid @ ''.'' @ fid @ '': '' @ e) None]))"

definition derived_field_id :: "string option \<Rightarrow> string" where
  \<comment> \<open>the field id that \<open>_validate_field\<close> takes from the column name when it is given no
      metadata: the last \<open>_\<close>-separated part\<close>
  "derived_field_id column_name =
     (if truthy column_name then
        (let parts = split_on (CHR ''_'') (the column_name)
         in if length parts \<ge> 2 then last parts else the column_name)
      else ''unknown_field'')"

definition validate_field ::
  "RuleEngine \<Rightarrow> string \<Rightarrow> FieldMetadata option \<Rightarrow> string option \<Rightarrow> nat \<Rightarrow> nat \<Rightarrow> string option
    \<Rightarrow> string option \<Rightarrow> ValidationContext \<Rightarrow> ValidationError list" where
  "validate_field engine eid field_metadata v ri cri column_name person_id_external context =
     (let fid =
            (case field_metadata of
               Some fm \<Rightarrow> fm_field_id fm
             | None \<Rightarrow> derived_field_id column_name);
          field_metadata1 =
            (case field_metadata of
               Some fm \<Rightarrow> Some fm
             | None \<Rightarrow>
                 (case first_pattern_hit (field_by_full_path (metadata_context context))
                         (build_field_search_patterns eid fid column_name) of
                    Some fm \<Rightarrow> Some fm
                  | None \<Rightarrow> entity_field_lookup (metadata_context context) eid fid))
      in case field_metadata1 of
           None \<Rightarrow>
             (let field_path = eid @ ''_'' @ fid
              in if startswith_any eid [''MEX_'', ''USA_'', ''BRA_'', ''CAN_'']
                 then [missing_metadata_for_field
                         (''CSF Field: '' @ field_path @ '' (not found with country prefix)'')]
                 else [missing_metadata_for_field field_path])
         | Some fm \<Rightarrow>
             run_field_rules (field_rules engine) context eid fid fm v
               \<lparr>a_entity_id = Some eid, a_field_metadata = Some fm, a_value = v,
                a_row_index = Some ri, a_csv_row_index = Some cri,
                a_column_name = column_name, a_person_id_external = person_id_external\<rparr>
               [])"

definition person_id_of_row :: "ValidationContext \<Rightarrow> TransformedRow \<Rightarrow> string option" where
  \<comment> \<open>step 1 of \<open>_validate_row\<close>\<close>
  "person_id_of_row context row =
     (case find_person_id_external_column_index context of
        None \<Rightarrow> None
      | Some col_index \<Rightarrow>
          if col_index < length (raw_values row)
          then (let p = strip (raw_values row ! col_index) in if p = [] then None else Some p)
          else None)"

definition validate_triple ::
  "RuleEngine \<Rightarrow> TransformedRow \<Rightarrow> ValidationContext \<Rightarrow> string option \<Rightarrow> string \<Rightarrow> string \<Rightarrow> string
    \<Rightarrow> ValidationError list" where
  \<comment> \<open>the body of the inner loop of \<open>_validate_row\<close>, for one \<open>(entity, field, value)\<close>\<close>
  "validate_triple engine row context person_id_external eid fid v =
     (let fpath = eid @ ''_'' @ fid;
          field_metadata =
            (case map_of (field_by_full_path (metadata_context context)) fpath of
               Some fm \<Rightarrow> Some fm
             | None \<Rightarrow> entity_field_lookup (metadata_context context) eid fid);
          column_name = get_column_name context eid fid
      in validate_field engine eid field_metadata (Some v) (original_row_index row) (csv_row_index row)
           column_name person_id_external context)"

definition validate_row :: "RuleEngine \<Rightarrow> TransformedRow \<Rightarrow> ValidationContext \<Rightarrow> ValidationError list" where
  "validate_row engine row context =
     (let person_id_external = person_id_of_row context row
      in concat (map (\<lambda>(eid, entity_data).
                        concat (map (\<lambda>(fid, v). validate_triple engine row context person_id_external eid fid v)
                                  entity_data))
                   (data_by_entity row)))"

text \<open>
  \<open>BatchValidationResult\<close> without \<open>validation_time\<close>, a wall-clock measurement. The outer
  handler of \<open>validate_batch\<close> is not met: every call of a rule is inside the handler of its
  own loop, and nothing else in the three steps raises on values of these types.
\<close>

record BatchValidationResult =
  batch_index :: nat
  processed_rows :: nat
  bv_errors :: "ValidationError list"


section \<open>Reporting\<close>

datatype ReportLevel = LEVEL_ERROR | LEVEL_WARNING | LEVEL_INFO

record ReportEntry =
  identificador :: "string option"
  re_field_id :: "string option"
  re_column_name :: "string option"
  error_code :: string
  re_message :: string
  level :: ReportLevel
  re_expected :: "py_any option"
  re_actual :: "py_any option"
  re_metadata_path :: "string option"
  re_details :: "(string \<times> string) list option"

text \<open>\<open>ValidationMetrics\<close> without \<open>validation_time\<close>, a sum of wall-clock measurements.\<close>

record ValidationMetrics =
  total_rows :: nat
  total_batches :: nat
  total_errors :: nat
  total_warnings :: nat
  error_counts :: "(string \<times> nat) list"
  identificador_counts :: "(string \<times> nat) list"
  severity_counts :: "(string \<times> nat) list"

definition severity_value :: "severity \<Rightarrow> string" where
  \<comment> \<open>\<open>severity.value\<close>\<close>
  "severity_value s = (case s of FATAL \<Rightarrow> ''FATAL'' | ERROR \<Rightarrow> ''ERROR'' | WARNING \<Rightarrow> ''WARNING'')"

definition severity_str :: "severity \<Rightarrow> string" where
  \<comment> \<open>\<open>str(severity)\<close> of a member of the enumeration \<open>ValidationSeverity\<close>\<close>
  "severity_str s = ''ValidationSeverity.'' @ severity_value s"

definition convert_error_to_entry :: "ValidationError \<Rightarrow> ReportEntry" where
  \<comment> \<open>the body of the loop of \<open>_convert_errors_to_entries\<close>\<close>
  "convert_error_to_entry error =
     \<lparr>identificador = ve_person_id_external error,
      re_field_id = ve_field_id error,
      re_column_name = ve_column_name error,
      error_code = ve_code error,
      re_message = ve_message error,
      level = (if contains_str ''ERROR'' (severity_str (ve_severity error))
                  \<or> contains_str ''FATAL'' (severity_str (ve_severity error)) then LEVEL_ERROR
               else if contains_str ''WARNING'' (severity_str (ve_severity error)) then LEVEL_WARNING
               else LEVEL_INFO),
      re_expected = ve_expected error,
      re_actual = ve_actual error,
      re_metadata_path = ve_metadata_path error,
      re_details = ve_details error\<rparr>"

definition convert_errors_to_entries :: "ValidationError list \<Rightarrow> ReportEntry list" where
  "convert_errors_to_entries validation_errors = map convert_error_to_entry validation_errors"

definition increment :: "(string \<times> nat) list \<Rightarrow> string \<Rightarrow> (string \<times> nat) list" where
  \<comment> \<open>\<open>counts[key] = counts.get(key, 0) + 1\<close>\<close>
  "increment counts key = dict_set counts key ((case map_of counts key of None \<Rightarrow> 0 | Some c \<Rightarrow> c) + 1)"

fun count_batches :: "BatchValidationResult list \<Rightarrow> ValidationMetrics \<Rightarrow> ValidationMetrics" where
  \<comment> \<open>the first loop of \<open>_calculate_metrics\<close>\<close>
  "count_batches [] metrics = metrics"
| "count_batches (batch_result # rest) metrics =
     count_batches rest
       (metrics\<lparr>total_batches := total_batches metrics + 1,
                total_rows := total_rows metrics + processed_rows batch_result\<rparr>)"

fun count_errors :: "ValidationError list \<Rightarrow> ValidationMetrics \<Rightarrow> ValidationMetrics" where
  \<comment> \<open>the second loop of \<open>_calculate_metrics\<close>\<close>
  "count_errors [] metrics = metrics"
| "count_errors (error # rest) metrics =
     count_errors rest
       (let sv = severity_value (ve_severity error);
            m1 = metrics\<lparr>severity_counts := increment (severity_counts metrics) sv\<rparr>;
            m2 = (if sv \<in> set [''ERROR'', ''FATAL''] then m1\<lparr>total_errors := total_errors m1 + 1\<rparr>
                  else if sv = ''WARNING'' then m1\<lparr>total_warnings := total_warnings m1 + 1\<rparr>
                  else m1);
            m3 = m2\<lparr>error_counts := increment (error_counts m2) (ve_code error)\<rparr>;
            ident = ''personInfo_person-id-external''
        in m3\<lparr>identificador_counts := increment (identificador_counts m3) ident\<rparr>)"

definition calculate_metrics :: "BatchValidationResult list \<Rightarrow> ValidationMetrics" where
  "calculate_metrics batch_results =
     count_errors (concat (map bv_errors batch_results))
       (count_batches batch_results
          \<lparr>total_rows = 0, total_batches = 0, total_errors = 0, total_warnings = 0,
           error_counts = [], identificador_counts = [], severity_counts = []\<rparr>)"

text \<open>
  \<open>create_report\<close>, as the entries and the metrics of the report; the report id and timestamp
  come from the clock, and the summary is a text derived from the metrics.
\<close>

definition create_report :: "BatchValidationResult list \<Rightarrow> ReportEntry list \<times> ValidationMetrics" where
  "create_report batch_results =
     (convert_errors_to_entries (concat (map bv_errors batch_results)),
      calculate_metrics batch_results)"

section \<open>Verification\<close>

subsection \<open>Column identifiers\<close>


lemma split_on_nonempty: "split_on sep s \<noteq> []"
  by (induction s) (auto split: list.splits)

lemma split_on_no_sep: "p \<in> set (split_on sep s) \<Longrightarrow> sep \<notin> set p"
proof (induction s arbitrary: p)
  case Nil
  then show ?case by simp
next
  case (Cons c cs)
  show ?case
  proof (cases "c = sep")
    case True
    with Cons show ?thesis by auto
  next
    case False
    obtain q qs where q: "split_on sep cs = q # qs"
      using split_on_nonempty [of sep cs] by (cases "split_on sep cs") auto
    with Cons False show ?thesis by auto
  qed
qed

lemma length_split_on: "length (split_on sep s) = Suc (length (filter (\<lambda>c. c = sep) s))"
proof (induction s)
  case Nil
  then show ?case by simp
next
  case (Cons c cs)
  obtain q qs where q: "split_on sep cs = q # qs"
    using split_on_nonempty [of sep cs] by (cases "split_on sep cs") auto
  with Cons show ?case by auto
qed

lemma compound_not_country_prefixed:
  assumes "py_isupper cc" "cc \<noteq> []" "e \<in> set COMPOUND_ELEMENTS"
  shows "\<not> prefix (cc @ ''_'') e"
proof
  assume p: "prefix (cc @ ''_'') e"
  obtain c cs where cc: "cc = c # cs" using assms(2) by (cases cc) auto
  from assms(1) cc have nl: "\<not> py_islower_char c" by (simp add: py_isupper_def)
  from p cc obtain r where "e = c # r" by (auto simp: prefix_def)
  with assms(3) have "c = CHR ''h'' \<or> c = CHR ''w'' \<or> c = CHR ''g'' \<or> c = CHR ''b''"
    by (auto simp: COMPOUND_ELEMENTS_def)
  with nl show False by (auto simp: py_islower_char_def)
qed

lemma resolve_parts_country:
  assumes "length parts \<ge> 3" "looks_like_country_code (parts ! 0)"
    and "resolve_parts name parts = Inr (is_cs, cc, el, fld)"
  shows "is_cs \<and> cc = Some (parts ! 0) \<and>
         (el = parts ! 1 \<or> (length parts \<ge> 4 \<and> el = parts ! 1 @ ''_'' @ parts ! 2 \<and> el \<in> set COMPOUND_ELEMENTS))"
  using assms by (auto simp: resolve_parts_def Let_def split: if_splits)



lemma parse_column_shape:
  "(\<exists>pc. parse_column n = (Some pc, None)) \<or> (\<exists>e. parse_column n = (None, Some e))"
  by (auto simp: parse_column_def Let_def split: sum.splits prod.splits)

lemma parse_all_columns_from_length:
  "length (fst (parse_all_columns_from k names)) = length names"
proof (induction names arbitrary: k)
  case Nil
  then show ?case by simp
next
  case (Cons n names)
  from Cons [of "Suc k"] show ?case
    by (auto simp: Let_def split: prod.splits option.splits)
qed

lemma parse_all_columns_from_errors:
  "snd (parse_all_columns_from k names) = List.map_filter (\<lambda>n. snd (parse_column n)) names"
proof (induction names arbitrary: k)
  case Nil
  then show ?case by (simp add: List.map_filter_simps)
next
  case (Cons n names)
  from parse_column_shape [of n] show ?case
    using Cons [of "Suc k"]
    by (auto simp: Let_def List.map_filter_simps split: prod.splits option.splits)
qed

lemma parse_all_columns_from_nth:
  "i < length names \<Longrightarrow>
   fst (parse_all_columns_from k names) ! i =
     (case parse_column (names ! i) of
        (Some pc, None) \<Rightarrow> pc
      | (_, Some e) \<Rightarrow> mk_ParsedColumn (names ! i) (''ERROR_'' @ str_nat (k + i)) (names ! i) False None
      | (None, None) \<Rightarrow> mk_ParsedColumn (names ! i) (''UNKNOWN_'' @ str_nat (k + i)) (names ! i) False None)"
proof (induction names arbitrary: k i)
  case Nil
  then show ?case by simp
next
  case (Cons n names)
  show ?case
  proof (cases i)
    case 0
    then show ?thesis
      by (auto simp: Let_def split: prod.splits option.splits)
  next
    case (Suc j)
    with Cons.prems have "j < length names" by simp
    from Cons.IH [OF this, of "Suc k"] Suc show ?thesis
      by (auto simp: Let_def split: prod.splits option.splits)
  qed
qed

text \<open>
  Claim C10. For every list of column names \<open>parse_all_columns\<close> returns a list of parsed
  columns of the same length, in the order of the input: position \<open>i\<close> holds the parsed
  column of name \<open>i\<close> when that name parses, and otherwise the placeholder with element id
  \<open>ERROR_i\<close>, field id equal to the original name and no country scope; the errors are those
  of the names that fail, in order.
\<close>

theorem parse_all_columns_aligned:
  "length (fst (parse_all_columns names)) = length names
   \<and> (\<forall>i < length names.
         fst (parse_all_columns names) ! i =
           (case parse_column (names ! i) of
              (Some pc, None) \<Rightarrow> pc
            | (_, Some e) \<Rightarrow> mk_ParsedColumn (names ! i) (''ERROR_'' @ str_nat i) (names ! i) False None
            | (None, None) \<Rightarrow> mk_ParsedColumn (names ! i) (''UNKNOWN_'' @ str_nat i) (names ! i) False None))
   \<and> snd (parse_all_columns names) = List.map_filter (\<lambda>n. snd (parse_column n)) names"
proof (intro conjI allI impI)
  show "length (fst (parse_all_columns names)) = length names"
    by (simp add: parse_all_columns_def parse_all_columns_from_length)
  show "snd (parse_all_columns names) = List.map_filter (\<lambda>n. snd (parse_column n)) names"
    by (simp add: parse_all_columns_def parse_all_columns_from_errors)
next
  fix i assume "i < length names"
  from parse_all_columns_from_nth [OF this, of 0, unfolded add_0]
  show "fst (parse_all_columns names) ! i =
           (case parse_column (names ! i) of
              (Some pc, None) \<Rightarrow> pc
            | (_, Some e) \<Rightarrow> mk_ParsedColumn (names ! i) (''ERROR_'' @ str_nat i) (names ! i) False None
            | (None, None) \<Rightarrow> mk_ParsedColumn (names ! i) (''UNKNOWN_'' @ str_nat i) (names ! i) False None)"
    by (simp add: parse_all_columns_def)
qed

text \<open>
  Claim C3. \<open>parse_column\<close> decodes \<open>MEX_homeAddress_fiscal_street\<close> into entity
  \<open>homeAddress_fiscal\<close>, field \<open>street\<close>, country \<open>MEX\<close>, country specific, and
  \<open>personInfo_country-of-birth\<close> into entity \<open>personInfo\<close>, field \<open>country-of-birth\<close>,
  not country specific. For every name that parses, has at least three segments and whose first
  segment looks like a country code, the result is country specific, its country code is the
  first segment, and its entity id does not start with that country code followed by \<open>_\<close>.
\<close>

theorem parse_column_country_scoped:
  "parse_column ''MEX_homeAddress_fiscal_street'' =
     (Some (mk_ParsedColumn ''MEX_homeAddress_fiscal_street'' ''homeAddress_fiscal'' ''street'' True (Some ''MEX'')), None)
   \<and> parse_column ''personInfo_country-of-birth'' =
     (Some (mk_ParsedColumn ''personInfo_country-of-birth'' ''personInfo'' ''country-of-birth'' False None), None)
   \<and> (\<forall>name pc. parse_column name = (Some pc, None) \<longrightarrow>
         3 \<le> length (split_on (CHR ''_'') (strip name)) \<longrightarrow>
         looks_like_country_code (split_on (CHR ''_'') (strip name) ! 0) \<longrightarrow>
           is_country_specific pc
           \<and> country_code pc = Some (split_on (CHR ''_'') (strip name) ! 0)
           \<and> \<not> prefix (split_on (CHR ''_'') (strip name) ! 0 @ ''_'') (element_id pc))"
proof (intro conjI allI impI)
  show "parse_column ''MEX_homeAddress_fiscal_street'' =
     (Some (mk_ParsedColumn ''MEX_homeAddress_fiscal_street'' ''homeAddress_fiscal'' ''street'' True (Some ''MEX'')), None)"
    by code_simp
  show "parse_column ''personInfo_country-of-birth'' =
     (Some (mk_ParsedColumn ''personInfo_country-of-birth'' ''personInfo'' ''country-of-birth'' False None), None)"
    by code_simp
next
  fix name pc
  let ?parts = "split_on (CHR ''_'') (strip name)"
  assume pc: "parse_column name = (Some pc, None)"
    and len: "3 \<le> length ?parts"
    and cc: "looks_like_country_code (?parts ! 0)"
  from pc obtain is_cs c el fld where
    r: "resolve_parts (strip name) ?parts = Inr (is_cs, c, el, fld)"
    and pc_eq: "pc = mk_ParsedColumn (strip name) el fld is_cs c"
    by (auto simp: parse_column_def Let_def split: if_splits sum.splits prod.splits)
  from resolve_parts_country [OF len cc r]
  have is_cs: is_cs and c: "c = Some (?parts ! 0)"
    and el: "el = ?parts ! 1 \<or> (length ?parts \<ge> 4 \<and> el = ?parts ! 1 @ ''_'' @ ?parts ! 2 \<and> el \<in> set COMPOUND_ELEMENTS)"
    by auto
  from cc have up: "py_isupper (?parts ! 0)" and ne: "?parts ! 0 \<noteq> []"
    by (auto simp: looks_like_country_code_def split: if_splits)
  have np: "\<not> prefix (?parts ! 0 @ ''_'') el"
  proof (cases "el = ?parts ! 1")
    case True
    from len have "?parts ! 1 \<in> set ?parts" by (intro nth_mem) simp
    then have "CHR ''_'' \<notin> set el" using True split_on_no_sep by metis
    then show ?thesis by (auto simp: prefix_def)
  next
    case False
    with el have "el \<in> set COMPOUND_ELEMENTS" by blast
    from compound_not_country_prefixed [OF up ne this] show ?thesis .
  qed
  show "is_country_specific pc" using is_cs pc_eq by (simp add: mk_ParsedColumn_def)
  show "country_code pc = Some (?parts ! 0)" using c pc_eq by (simp add: mk_ParsedColumn_def)
  show "\<not> prefix (?parts ! 0 @ ''_'') (element_id pc)" using np pc_eq by (simp add: mk_ParsedColumn_def)
qed

theorem parse_column_country_scoped_witness:
  "parse_column ''MEX_jobInfo_position'' = (Some (mk_ParsedColumn ''MEX_jobInfo_position'' ''jobInfo'' ''position'' True (Some ''MEX'')), None)
   \<and> 3 \<le> length (split_on (CHR ''_'') (strip ''MEX_jobInfo_position''))
   \<and> looks_like_country_code (split_on (CHR ''_'') (strip ''MEX_jobInfo_position'') ! 0)
   \<and> \<not> prefix (''MEX'' @ ''_'') (element_id (mk_ParsedColumn ''MEX_jobInfo_position'' ''jobInfo'' ''position'' True (Some ''MEX'')))"
proof -
  have a: "parse_column ''MEX_jobInfo_position'' = (Some (mk_ParsedColumn ''MEX_jobInfo_position'' ''jobInfo'' ''position'' True (Some ''MEX'')), None)"
    by code_simp
  have b: "3 \<le> length (split_on (CHR ''_'') (strip ''MEX_jobInfo_position''))"
    by code_simp
  have c: "looks_like_country_code (split_on (CHR ''_'') (strip ''MEX_jobInfo_position'') ! 0)"
    by code_simp
  have d: "split_on (CHR ''_'') (strip ''MEX_jobInfo_position'') ! 0 = ''MEX''"
    by code_simp
  from parse_column_country_scoped a b c d show ?thesis by (metis append.simps)
qed

theorem parse_all_columns_aligned_witness:
  "length (fst (parse_all_columns [''a_b'', ''x''])) = 2
   \<and> fst (parse_all_columns [''a_b'', ''x'']) ! 1 = mk_ParsedColumn ''x'' ''ERROR_1'' ''x'' False None"
proof -
  have a: "parse_column ''x'' = (None, snd (parse_column ''x''))" "snd (parse_column ''x'') \<noteq> None"
    by code_simp+
  have b: "str_nat 1 = ''1''" by code_simp
  from parse_all_columns_aligned [of "[''a_b'', ''x'']"] show ?thesis
    using a b by (auto split: option.splits prod.splits)
qed


subsection \<open>Batch reader and row transformer\<close>












lemma batch_loop_fill:
  "length r = n \<Longrightarrow> length batch + k < bs \<Longrightarrow>
   batch_loop bs n i batch (replicate k r) = ([], [], batch @ replicate k r)"
proof (induction k arbitrary: i batch)
  case 0
  then show ?case by simp
next
  case (Suc k)
  from Suc.prems have "length (batch @ [r]) + k < bs" by simp
  from Suc.IH [OF Suc.prems(1) this, of "i + 1"] Suc.prems show ?case
    by (simp add: replicate_app_Cons_same)
qed

lemma batch_loop_full:
  "length r = n \<Longrightarrow> length batch + Suc k = bs \<Longrightarrow>
   batch_loop bs n i batch (replicate (Suc k) r @ rest) =
     (case batch_loop bs n (i + Suc k) [] rest of
        (B, E, L) \<Rightarrow> ((batch @ replicate (Suc k) r) # B, E, L))"
proof (induction k arbitrary: i batch)
  case 0
  then show ?case by (simp split: prod.splits)
next
  case (Suc k)
  from Suc.prems have "length (batch @ [r]) + Suc k = bs" by simp
  from Suc.IH [OF Suc.prems(1) this, of "i + 1"] Suc.prems show ?case
    by (simp add: replicate_app_Cons_same split: prod.splits)
qed

lemma transform_batch_nth:
  "i < length rows \<Longrightarrow>
   transform_batch rows k s c e ! i = transform_row (rows ! i) (k * length rows + i) s c e"
  by (simp add: transform_batch_def nth_enumerate_eq)

lemma length_transform_batch: "length (transform_batch rows k s c e) = length rows"
  by (simp add: transform_batch_def)

lemma read_batches_short_last:
  "read_batches \<lparr>records = [[''a_b''], [''A'']] @ replicate 10001 [''v''], failure = None\<rparr>
     \<lparr>encoding = enc, dialect = \<lparr>delimiter = '','', quotechar = [CHR 0x22], escapechar = None, doublequote = True, skipinitialspace = False, lineterminator = [CHR 0x0A], quoting = 0\<rparr>, columns = [''a_b''], total_columns = 1, errors = [],
      label_row_present = True, data_start_index = 2\<rparr>
   = ([replicate 10000 [''v''], [[''v'']]], [])"
proof -
  have s: "replicate 10001 [''v''] = replicate (Suc 9999) [''v''] @ replicate 1 [''v'']"
    by (simp add: replicate_add [symmetric] del: replicate_Suc replicate.simps)
  have "batch_loop 10000 1 2 [] (replicate (Suc 9999) [''v''] @ replicate 1 [''v''])
        = ([replicate 10000 [''v'']], [], [[''v'']])"
    by (subst batch_loop_full) simp_all
  then show ?thesis
    unfolding read_batches_def s by (simp add: BATCH_SIZE_def)
qed



lemma original_row_index_transform_row [simp]:
  "original_row_index (transform_row vs i s c e) = i"
  by (simp add: transform_row_def split: prod.splits)

lemma csv_row_index_transform_row [simp]:
  "csv_row_index (transform_row vs i s c e) = s + i"
  by (simp add: transform_row_def split: prod.splits)

text \<open>
  Claim C1, at a file of a header, a label row and 10,001 well-formed data rows. The reader
  yields a batch of 10,000 rows and a batch of one row. Transformed as one batch, the last row
  has \<open>original_row_index\<close> 10,000 and \<open>csv_row_index\<close> 10,002; transformed batch by batch, as
  the orchestrator does, the same row gets \<open>original_row_index\<close> 1 and \<open>csv_row_index\<close> 3,
  because \<open>transform_batch\<close> multiplies the batch index by the length of the current batch.
\<close>

theorem batching_short_last_batch_indices:
  "let file = \<lparr>records = [[''a_b''], [''A'']] @ replicate 10001 [''v''], failure = None\<rparr>;
       ctx = \<lparr>encoding = ''utf-8'', dialect = \<lparr>delimiter = '','', quotechar = [CHR 0x22], escapechar = None, doublequote = True, skipinitialspace = False, lineterminator = [CHR 0x0A], quoting = 0\<rparr>, columns = [''a_b''], total_columns = 1, errors = [],
              label_row_present = True, data_start_index = 2\<rparr>;
       entities = fst (map_columns_to_entities (fst (parse_all_columns (columns ctx))));
       column_to_entity_map = snd (map_columns_to_entities (fst (parse_all_columns (columns ctx))));
       batched = concat (transform_stream 0 (fst (read_batches file ctx)) (data_start_index ctx)
                           column_to_entity_map entities);
       single = transform_batch (replicate 10001 [''v'']) 0 (data_start_index ctx)
                           column_to_entity_map entities
   in length batched = 10001 \<and> length single = 10001
      \<and> original_row_index (single ! 10000) = 10000 \<and> csv_row_index (single ! 10000) = 10002
      \<and> original_row_index (batched ! 10000) = 1 \<and> csv_row_index (batched ! 10000) = 3"
proof -
  have n: "(10000::nat) < 10001" by simp
  show ?thesis
    unfolding Let_def read_batches_short_last
    by (simp add: length_transform_batch transform_batch_nth nth_append)
qed


subsection \<open>Encoding detection\<close>










subsection \<open>Structure detection\<close>


lemma strip_Nil [simp]: "strip [] = []"
  by (simp add: strip_def)

lemma validate_header_cells_None:
  "validate_header_cells i seen cells = None \<longleftrightarrow>
     (\<forall>c \<in> set cells. strip c \<noteq> [] \<and> CHR ''_'' \<in> set (strip c) \<and> strip c \<notin> set seen)
     \<and> distinct (map strip cells)"
proof (induction cells arbitrary: i seen)
  case Nil
  then show ?case by simp
next
  case (Cons c cells)
  show ?case
    using Cons.IH [of "Suc i" "strip c # seen"]
    by (cases "c = []") (auto simp: Let_def image_iff)
qed

lemma validate_header_row_None:
  "validate_header_row h = None \<longleftrightarrow>
     h \<noteq> [] \<and> (\<forall>c \<in> set h. strip c \<noteq> [] \<and> CHR ''_'' \<in> set (strip c)) \<and> distinct (map strip h)"
  by (simp add: validate_header_row_def validate_header_cells_None)

text \<open>
  Claim C5, amended. For every file whose first record is a header with at least one cell,
  whose cells are, once surrounding white space is stripped, non-empty, pairwise different and
  contain an underscore, and whose reader does not fail within the records read,
  \<open>detect_structure\<close> returns a context with \<open>data_start_index = 2\<close> and no error, whatever
  the second record holds. A column-count mismatch of the second record is appended to the
  context as a \<open>LABEL_COLUMN_MISMATCH\<close> error, a missing third record as the \<open>NO_DATA_ROWS\<close>
  warning, a column-count mismatch of the third record as a \<open>ROW_COLUMN_COUNT_MISMATCH\<close>
  error; none of them is fatal.
\<close>

theorem detect_structure_valid_header:
  assumes recs: "records file = header # later"
    and nofail: "length (records file) \<le> 3 \<longrightarrow> failure file = None"
    and ne: "header \<noteq> []"
    and cells: "\<forall>c \<in> set header. strip c \<noteq> [] \<and> CHR ''_'' \<in> set (strip c)"
    and dist: "distinct (map strip header)"
  shows "\<exists>ctx. detect_structure file enc d = (Some ctx, None)
           \<and> data_start_index ctx = 2 \<and> label_row_present ctx
           \<and> columns ctx = header \<and> total_columns ctx = length header
           \<and> errors ctx =
               (case later of
                  [] \<Rightarrow> [no_data_rows]
                | labels # data \<Rightarrow>
                    (if length labels \<noteq> length header
                     then [label_column_mismatch 1 (length header) (length labels)] else [])
                    @ (case data of
                         [] \<Rightarrow> [no_data_rows]
                       | row # _ \<Rightarrow>
                           if length row \<noteq> length header
                           then [row_column_mismatch 2 (length header) (length row)] else []))
           \<and> (\<forall>e \<in> set (errors ctx). ne_severity e \<noteq> FATAL)"
proof -
  have v: "validate_header_row header = None"
    using ne cells dist by (simp add: validate_header_row_None)
  have f: "(if length (records file) \<le> 3 then failure file else None) = None"
    using nofail by simp
  show ?thesis
  proof (cases later)
    case Nil
    with recs v f show ?thesis
      by (simp add: detect_structure_def Let_def no_data_rows_def)
  next
    case (Cons labels data)
    show ?thesis
    proof (cases data)
      case Nil
      with Cons recs v f show ?thesis
        by (simp add: detect_structure_def Let_def no_data_rows_def label_column_mismatch_def)
    next
      case (Cons row rest)
      with \<open>later = labels # data\<close> recs v f show ?thesis
        by (simp add: detect_structure_def Let_def validate_data_row_def
            label_column_mismatch_def row_column_mismatch_def)
    qed
  qed
qed

theorem detect_structure_valid_header_witness:
  "detect_structure \<lparr>records = [[''a_b'', ''c_d''], [''A'']], failure = None\<rparr> ''utf-8''
      \<lparr>delimiter = '','', quotechar = [CHR 0x22], escapechar = None, doublequote = True,
       skipinitialspace = False, lineterminator = [CHR 0x0A], quoting = 0\<rparr>
   = (Some \<lparr>encoding = ''utf-8'',
            dialect = \<lparr>delimiter = '','', quotechar = [CHR 0x22], escapechar = None, doublequote = True,
                       skipinitialspace = False, lineterminator = [CHR 0x0A], quoting = 0\<rparr>,
            columns = [''a_b'', ''c_d''], total_columns = 2,
            errors = [label_column_mismatch 1 2 1, no_data_rows],
            label_row_present = True, data_start_index = 2\<rparr>, None)"
proof -
  let ?file = "\<lparr>records = [[''a_b'', ''c_d''], [''A'']], failure = None\<rparr>"
  have 1: "records ?file = [''a_b'', ''c_d''] # [[''A'']]" by simp
  have 2: "length (records ?file) \<le> 3 \<longrightarrow> failure ?file = None" by simp
  have 3: "[''a_b'', ''c_d''] \<noteq> []" by simp
  have s: "strip ''a_b'' = ''a_b''" "strip ''c_d'' = ''c_d''" by code_simp+
  have 4: "\<forall>c \<in> set [''a_b'', ''c_d'']. strip c \<noteq> [] \<and> CHR ''_'' \<in> set (strip c)"
    by (simp add: s)
  have 5: "distinct (map strip [''a_b'', ''c_d''])" by (simp add: s)
  from detect_structure_valid_header [OF 1 2 3 4 5, of "''utf-8''"
      "\<lparr>delimiter = '','', quotechar = [CHR 0x22], escapechar = None, doublequote = True,
       skipinitialspace = False, lineterminator = [CHR 0x0A], quoting = 0\<rparr>"]
  obtain ctx where c: "detect_structure ?file ''utf-8''
      \<lparr>delimiter = '','', quotechar = [CHR 0x22], escapechar = None, doublequote = True,
       skipinitialspace = False, lineterminator = [CHR 0x0A], quoting = 0\<rparr> = (Some ctx, None)"
    and e: "errors ctx = [label_column_mismatch 1 2 1, no_data_rows]"
    by (auto simp: eval_nat_numeral)
  have "encoding ctx = ''utf-8'' \<and> columns ctx = [''a_b'', ''c_d''] \<and> total_columns ctx = 2
        \<and> label_row_present ctx \<and> data_start_index ctx = 2
        \<and> dialect ctx = \<lparr>delimiter = '','', quotechar = [CHR 0x22], escapechar = None, doublequote = True,
       skipinitialspace = False, lineterminator = [CHR 0x0A], quoting = 0\<rparr>"
    using c by (auto simp: detect_structure_def Let_def split: option.splits if_splits read_failure.splits)
  with c e show ?thesis by (cases ctx) auto
qed

text \<open>
  Counterexample to claim C5 as stated: the header cells \<open>" a_b"\<close> and \<open>"a_b"\<close> are
  non-empty, different and contain an underscore, yet \<open>detect_structure\<close> rejects the file
  with the fatal \<open>DUPLICATED_COLUMN\<close> error, since it compares the stripped cells.
\<close>

theorem detect_structure_whitespace_duplicate:
  "'' a_b'' \<noteq> [] \<and> CHR ''_'' \<in> set '' a_b'' \<and> ''a_b'' \<noteq> [] \<and> CHR ''_'' \<in> set ''a_b''
   \<and> '' a_b'' \<noteq> ''a_b''
   \<and> detect_structure \<lparr>records = [['' a_b'', ''a_b''], [''A'', ''B''], [''1'', ''2'']], failure = None\<rparr>
        ''utf-8''
        \<lparr>delimiter = '','', quotechar = [CHR 0x22], escapechar = None, doublequote = True,
         skipinitialspace = False, lineterminator = [CHR 0x0A], quoting = 0\<rparr>
      = (None, Some (duplicated_column 0 1 ''a_b''))
   \<and> ne_severity (duplicated_column 0 1 ''a_b'') = FATAL"
proof -
  have s: "strip '' a_b'' = ''a_b''" "strip ''a_b'' = ''a_b''" by code_simp+
  show ?thesis
    by (simp add: detect_structure_def validate_header_row_def s Let_def duplicated_column_def)
qed

subsection \<open>The two paths of a country-scoped field\<close>


























subsection \<open>Rule engine\<close>





lemma run_field_rules_acc:
  "run_field_rules rs context eid fid fm v args errs
     = errs @ run_field_rules rs context eid fid fm v args []"
proof (induction rs arbitrary: errs)
  case Nil
  then show ?case by simp
next
  case (Cons r rs)
  let ?f = "\<lambda>e. rule_execution_failed (rule_id r) (''field '' @ eid @ ''.'' @ fid @ '': '' @ e) None"
  let ?c = "case should_skip r (Some fm) v of
              Raised e \<Rightarrow> [?f e]
            | Returned True \<Rightarrow> []
            | Returned False \<Rightarrow>
                (case validate r context args of
                   Returned rule_errors \<Rightarrow> rule_errors
                 | Raised e \<Rightarrow> [?f e])"
  have step: "\<And>acc. run_field_rules (r # rs) context eid fid fm v args acc
                 = run_field_rules rs context eid fid fm v args (acc @ ?c)"
    by (simp split: outcome.splits bool.splits)
  show ?case
    unfolding step using Cons.IH [of "errs @ ?c"] Cons.IH [of "[] @ ?c"] by simp
qed








subsection \<open>Field metadata resolution\<close>


lemma first_pattern_hit_append:
  "first_pattern_hit index (ps @ qs) =
     (case first_pattern_hit index ps of Some fm \<Rightarrow> Some fm | None \<Rightarrow> first_pattern_hit index qs)"
  by (induction ps) (auto split: option.splits)

lemma first_pattern_hit_None_mem:
  "first_pattern_hit index ps = None \<Longrightarrow> p \<in> set ps \<Longrightarrow> map_of index p = None"
  by (induction ps) (auto split: option.splits)

lemma first_pattern_hit_unique:
  "[] \<notin> set ps \<Longrightarrow>
   first_pattern_hit index (unique_patterns ps acc) = first_pattern_hit index (acc @ ps)"
proof (induction ps arbitrary: acc)
  case Nil
  then show ?case by simp
next
  case (Cons p ps)
  from Cons.prems have p: "p \<noteq> []" and ps: "[] \<notin> set ps" by auto
  show ?case
  proof (cases "p \<in> set acc")
    case True
    have "first_pattern_hit index (acc @ p # ps) = first_pattern_hit index (acc @ ps)"
      using first_pattern_hit_None_mem [OF _ True, of index]
      by (auto simp: first_pattern_hit_append split: option.splits)
    with Cons.IH [OF ps, of acc] True p show ?thesis by simp
  next
    case False
    with Cons.IH [OF ps, of "acc @ [p]"] p show ?thesis by simp
  qed
qed

lemma first_pattern_hit_map_filter:
  "first_pattern_hit index ps =
     (case List.map_filter (map_of index) ps of [] \<Rightarrow> None | fm # _ \<Rightarrow> Some fm)"
  by (induction ps) (auto simp: List.map_filter_simps split: option.splits list.splits)

lemma split_once_second:
  "CHR ''_'' \<in> set s \<Longrightarrow> length (split_once (CHR ''_'') s) = 2
     \<and> split_once (CHR ''_'') s ! 1 = tl (dropWhile (\<lambda>c. c \<noteq> CHR ''_'') s)"
  by (simp add: split_once_def)

lemma startswith_prefix_underscore:
  "startswith_any eid [''MEX_'', ''USA_'', ''BRA_'', ''CAN_''] \<Longrightarrow> CHR ''_'' \<in> set eid"
  by (auto simp: startswith_any_def startswith_def prefix_def)

lemma run_field_rules_concat:
  "run_field_rules rs context eid fid fm v args [] =
     concat (map (\<lambda>rule.
        case should_skip rule (Some fm) v of
          Raised e \<Rightarrow> [rule_execution_failed (rule_id rule) (''field '' @ eid @ ''.'' @ fid @ '': '' @ e) None]
        | Returned True \<Rightarrow> []
        | Returned False \<Rightarrow>
            (case validate rule context args of
               Returned rule_errors \<Rightarrow> rule_errors
             | Raised e \<Rightarrow> [rule_execution_failed (rule_id rule) (''field '' @ eid @ ''.'' @ fid @ '': '' @ e) None]))
       rs)"
proof (induction rs)
  case Nil
  then show ?case by simp
next
  case (Cons r rs)
  show ?case
    apply (simp only: run_field_rules.simps list.map concat.simps)
    apply (subst run_field_rules_acc)
    apply (simp add: Cons.IH split: outcome.splits bool.splits)
    done
qed



lemma map_filter_id_Cons:
  "List.map_filter id (x # xs) = (case x of None \<Rightarrow> List.map_filter id xs | Some y \<Rightarrow> y # List.map_filter id xs)"
  by (simp add: List.map_filter_simps split: option.splits)

lemma map_filter_id_Nil: "List.map_filter id [] = []"
  by (simp add: List.map_filter_simps)

lemma first_pattern_hit_build:
  "first_pattern_hit index (build_field_search_patterns eid d cn) =
     (case List.map_filter id
             [map_of index (eid @ ''_'' @ d),
              (if startswith_any eid [''MEX_'', ''USA_'', ''BRA_'', ''CAN_'']
               then map_of index (tl (dropWhile (\<lambda>c. c \<noteq> CHR ''_'') eid) @ ''_'' @ d)
               else None),
              (if truthy cn then map_of index (the cn) else None),
              (if truthy cn then map_of index (replace_char (CHR ''_'') (CHR ''.'') (the cn)) else None)] of
        [] \<Rightarrow> None | fm # _ \<Rightarrow> Some fm)"
proof -
  let ?raw = "[eid @ ''_'' @ d]
        @ (if startswith_any eid [''MEX_'', ''USA_'', ''BRA_'', ''CAN_'']
           then (let parts = split_once (CHR ''_'') eid
                 in if length parts = 2 then [parts ! 1 @ ''_'' @ d] else [])
           else [])
        @ (case cn of
             None \<Rightarrow> []
           | Some cn \<Rightarrow> if cn = [] then [] else [cn, replace_char (CHR ''_'') (CHR ''.'') cn])
        @ (case cn of
             None \<Rightarrow> []
           | Some cn \<Rightarrow> if cn \<noteq> [] \<and> startswith_any cn [''MEX_'', ''USA_'', ''BRA_''] then [cn] else [])"
  have nonempty: "[] \<notin> set ?raw"
    by (auto simp: Let_def replace_char_def split: option.splits)
  have pats: "first_pattern_hit index (build_field_search_patterns eid d cn)
                = first_pattern_hit index ?raw"
    unfolding build_field_search_patterns_def
    using first_pattern_hit_unique [OF nonempty, of index "[]"] by simp
  show ?thesis
    unfolding pats
  proof (cases "startswith_any eid [''MEX_'', ''USA_'', ''BRA_'', ''CAN_'']")
    case True
    note so = split_once_second [OF startswith_prefix_underscore [OF True]]
    show "first_pattern_hit index ?raw =
     (case List.map_filter id
             [map_of index (eid @ ''_'' @ d),
              (if startswith_any eid [''MEX_'', ''USA_'', ''BRA_'', ''CAN_'']
               then map_of index (tl (dropWhile (\<lambda>c. c \<noteq> CHR ''_'') eid) @ ''_'' @ d)
               else None),
              (if truthy cn then map_of index (the cn) else None),
              (if truthy cn then map_of index (replace_char (CHR ''_'') (CHR ''.'') (the cn)) else None)] of
        [] \<Rightarrow> None | fm # _ \<Rightarrow> Some fm)"
      using True so
      by (cases cn)
        (auto simp: Let_def truthy_def map_filter_id_Cons map_filter_id_Nil
          split: option.splits)
  next
    case False
    then show "first_pattern_hit index ?raw =
     (case List.map_filter id
             [map_of index (eid @ ''_'' @ d),
              (if startswith_any eid [''MEX_'', ''USA_'', ''BRA_'', ''CAN_'']
               then map_of index (tl (dropWhile (\<lambda>c. c \<noteq> CHR ''_'') eid) @ ''_'' @ d)
               else None),
              (if truthy cn then map_of index (the cn) else None),
              (if truthy cn then map_of index (replace_char (CHR ''_'') (CHR ''.'') (the cn)) else None)] of
        [] \<Rightarrow> None | fm # _ \<Rightarrow> Some fm)"
      by (cases cn)
        (auto simp: Let_def truthy_def map_filter_id_Cons map_filter_id_Nil
          split: option.splits)
  qed
qed

lemma resolve_late:
  "(case first_pattern_hit index (build_field_search_patterns eid d cn) of
      Some fm \<Rightarrow> Some fm
    | None \<Rightarrow> last_lookup)
   = (case List.map_filter id
             [map_of index (eid @ ''_'' @ d),
              (if startswith_any eid [''MEX_'', ''USA_'', ''BRA_'', ''CAN_'']
               then map_of index (tl (dropWhile (\<lambda>c. c \<noteq> CHR ''_'') eid) @ ''_'' @ d)
               else None),
              (if truthy cn then map_of index (the cn) else None),
              (if truthy cn then map_of index (replace_char (CHR ''_'') (CHR ''.'') (the cn)) else None),
              last_lookup] of
        [] \<Rightarrow> None | fm # _ \<Rightarrow> Some fm)"
  unfolding first_pattern_hit_build
  by (simp add: map_filter_id_Cons map_filter_id_Nil split: option.splits)

lemma validate_field_known:
  "validate_field engine eid (Some fm) v ri cri cn pid context
     = run_field_rules (field_rules engine) context eid (fm_field_id fm) fm v
         \<lparr>a_entity_id = Some eid, a_field_metadata = Some fm, a_value = v, a_row_index = Some ri,
          a_csv_row_index = Some cri, a_column_name = cn, a_person_id_external = pid\<rparr> []"
  by (simp add: validate_field_def)

lemma validate_field_unknown:
  "validate_field engine eid None v ri cri cn pid context
     = (case (case first_pattern_hit (field_by_full_path (metadata_context context))
                     (build_field_search_patterns eid (derived_field_id cn) cn) of
                Some fm \<Rightarrow> Some fm
              | None \<Rightarrow> entity_field_lookup (metadata_context context) eid (derived_field_id cn)) of
          None \<Rightarrow>
            [missing_metadata_for_field
               (if startswith_any eid [''MEX_'', ''USA_'', ''BRA_'', ''CAN_'']
                then ''CSF Field: '' @ eid @ ''_'' @ derived_field_id cn @ '' (not found with country prefix)''
                else eid @ ''_'' @ derived_field_id cn)]
        | Some fm \<Rightarrow>
            run_field_rules (field_rules engine) context eid (derived_field_id cn) fm v
              \<lparr>a_entity_id = Some eid, a_field_metadata = Some fm, a_value = v, a_row_index = Some ri,
               a_csv_row_index = Some cri, a_column_name = cn, a_person_id_external = pid\<rparr> [])"
  by (simp add: validate_field_def Let_def cong: option.case_cong)



text \<open>
  Claim C8, amended. For every \<open>(entity, field, value)\<close> triple of a transformed row the engine
  resolves the field metadata by the first lookup that succeeds among: the full path
  \<open>entity_field\<close> in the index, the field in the entity's own field map; then, with the field
  id taken anew as the last \<open>_\<close>-separated part of the column name (\<open>unknown_field\<close> without a
  column name): the full path \<open>entity_field\<close>, the same with the country prefix \<open>MEX_\<close>,
  \<open>USA_\<close>, \<open>BRA_\<close> or \<open>CAN_\<close> stripped from the entity, the column name, the column name with
  \<open>_\<close> replaced by \<open>.\<close>, and the entity's own field map. If all fail, the triple yields
  exactly one \<open>MISSING_METADATA_FOR_FIELD\<close> warning and no field rule runs; otherwise every
  enabled field rule contributes its errors, unless its \<open>should_skip\<close> returns true.
\<close>

theorem field_metadata_resolution:
  "validate_triple engine row context pid eid fid v =
     (let mc = metadata_context context;
          index = field_by_full_path mc;
          cn = get_column_name context eid fid;
          derived = derived_field_id cn;
          run = (\<lambda>shown fm.
                   concat (map (\<lambda>rule.
                     case should_skip rule (Some fm) (Some v) of
                       Raised e \<Rightarrow>
                         [rule_execution_failed (rule_id rule)
                            (''field '' @ eid @ ''.'' @ shown @ '': '' @ e) None]
                     | Returned True \<Rightarrow> []
                     | Returned False \<Rightarrow>
                         (case validate rule context
                                 \<lparr>a_entity_id = Some eid, a_field_metadata = Some fm, a_value = Some v,
                                  a_row_index = Some (original_row_index row),
                                  a_csv_row_index = Some (csv_row_index row),
                                  a_column_name = cn, a_person_id_external = pid\<rparr> of
                            Returned rule_errors \<Rightarrow> rule_errors
                          | Raised e \<Rightarrow>
                              [rule_execution_failed (rule_id rule)
                                 (''field '' @ eid @ ''.'' @ shown @ '': '' @ e) None]))
                     (field_rules engine)))
      in case List.map_filter id
                [map_of index (eid @ ''_'' @ fid), entity_field_lookup mc eid fid] of
           fm # _ \<Rightarrow> run (fm_field_id fm) fm
         | [] \<Rightarrow>
             (case List.map_filter id
                     [map_of index (eid @ ''_'' @ derived),
                      (if startswith_any eid [''MEX_'', ''USA_'', ''BRA_'', ''CAN_'']
                       then map_of index (tl (dropWhile (\<lambda>c. c \<noteq> CHR ''_'') eid) @ ''_'' @ derived)
                       else None),
                      (if truthy cn then map_of index (the cn) else None),
                      (if truthy cn then map_of index (replace_char (CHR ''_'') (CHR ''.'') (the cn)) else None),
                      entity_field_lookup mc eid derived] of
                fm # _ \<Rightarrow> run derived fm
              | [] \<Rightarrow>
                  [missing_metadata_for_field
                     (if startswith_any eid [''MEX_'', ''USA_'', ''BRA_'', ''CAN_'']
                      then ''CSF Field: '' @ eid @ ''_'' @ derived @ '' (not found with country prefix)''
                      else eid @ ''_'' @ derived)]))
   \<and> ve_code (missing_metadata_for_field p) = ''MISSING_METADATA_FOR_FIELD''
   \<and> ve_severity (missing_metadata_for_field p) = WARNING"
proof -
  let ?mc = "metadata_context context"
  let ?index = "field_by_full_path ?mc"
  let ?cn = "get_column_name context eid fid"
  let ?d = "derived_field_id ?cn"
  let ?args = "\<lambda>fm. \<lparr>a_entity_id = Some eid, a_field_metadata = Some fm, a_value = Some v,
                      a_row_index = Some (original_row_index row),
                      a_csv_row_index = Some (csv_row_index row),
                      a_column_name = ?cn, a_person_id_external = pid\<rparr>"
  let ?late = "[map_of ?index (eid @ ''_'' @ ?d),
               (if startswith_any eid [''MEX_'', ''USA_'', ''BRA_'', ''CAN_'']
                then map_of ?index (tl (dropWhile (\<lambda>c. c \<noteq> CHR ''_'') eid) @ ''_'' @ ?d)
                else None),
               (if truthy ?cn then map_of ?index (the ?cn) else None),
               (if truthy ?cn then map_of ?index (replace_char (CHR ''_'') (CHR ''.'') (the ?cn)) else None),
               entity_field_lookup ?mc eid ?d]"
  let ?warn = "[missing_metadata_for_field
                  (if startswith_any eid [''MEX_'', ''USA_'', ''BRA_'', ''CAN_'']
                   then ''CSF Field: '' @ eid @ ''_'' @ ?d @ '' (not found with country prefix)''
                   else eid @ ''_'' @ ?d)]"
  have main: "validate_triple engine row context pid eid fid v =
     (case List.map_filter id [map_of ?index (eid @ ''_'' @ fid), entity_field_lookup ?mc eid fid] of
        fm # _ \<Rightarrow> run_field_rules (field_rules engine) context eid (fm_field_id fm) fm (Some v) (?args fm) []
      | [] \<Rightarrow>
          (case List.map_filter id ?late of
             fm # _ \<Rightarrow> run_field_rules (field_rules engine) context eid ?d fm (Some v) (?args fm) []
           | [] \<Rightarrow> ?warn))"
  proof (cases "map_of ?index (eid @ ''_'' @ fid)")
    case (Some fm)
    then show ?thesis
      unfolding validate_triple_def Let_def by (simp add: validate_field_known map_filter_id_Cons)
  next
    case None
    show ?thesis
    proof (cases "entity_field_lookup ?mc eid fid")
      case (Some fm)
      with None show ?thesis
        unfolding validate_triple_def Let_def
        by (simp add: validate_field_known map_filter_id_Cons map_filter_id_Nil)
    next
      case n2: None
      have e: "List.map_filter id [map_of ?index (eid @ ''_'' @ fid), entity_field_lookup ?mc eid fid] = []"
        using None n2 by (simp add: map_filter_id_Cons map_filter_id_Nil)
      have "validate_triple engine row context pid eid fid v
            = validate_field engine eid None (Some v) (original_row_index row)
                   (csv_row_index row) ?cn pid context"
        unfolding validate_triple_def Let_def using None n2 by simp
      also have "\<dots> = (case List.map_filter id ?late of
             fm # _ \<Rightarrow> run_field_rules (field_rules engine) context eid ?d fm (Some v) (?args fm) []
           | [] \<Rightarrow> ?warn)"
        unfolding validate_field_unknown resolve_late
        by (cases "List.map_filter id ?late") simp_all
      finally show ?thesis
        unfolding e by simp
    qed
  qed
  show ?thesis
    apply (rule conjI)
     apply (subst main)
     apply (simp only: Let_def run_field_rules_concat)
    apply (simp add: missing_metadata_for_field_def)
    done
qed



theorem field_metadata_resolution_witness:
  "validate_triple
     \<lparr>global_rules = [], entity_rules = [], field_rules = [NotNullRule, MaxLengthRule]\<rparr>
     \<lparr>original_row_index = 0, csv_row_index = 2,
      data_by_entity = [(''personInfo'', [(''person-id-external'', ''17'')]), (''jobInfo'', [(''position'', '''')])],
      raw_values = [''17'', ''''], tr_errors = []\<rparr>
     \<lparr>transform_context =
        the (fst (transform_csv_context
          \<lparr>encoding = ''utf-8'',
           dialect = \<lparr>delimiter = '','', quotechar = [CHR 0x22], escapechar = None,
                      doublequote = True, skipinitialspace = False,
                      lineterminator = [CHR 0x0A], quoting = 0\<rparr>,
           columns = [''personInfo_person-id-external'', ''MEX_jobInfo_position''],
           total_columns = 2, errors = [], label_row_present = True, data_start_index = 2\<rparr>)),
      metadata_context =
        adapt_parsed_metadata ''SF1'' ''v1''
          (Node ''succession-data-model'' '''' [] ''root''
             [Node ''hris-element'' ''jobInfo'' [(''data-origin'', ''csf''), (''data-country'', ''MEX'')] ''element''
                [Node ''hris-field'' ''position'' [(''required'', ''true'')] ''field'' []]]),
      enabled_rules = [''required_columns'', ''not_null'', ''data_type'', ''max_length'']\<rparr>
     (Some ''17'') ''jobInfo'' ''position'' ''''
   = [required_value_missing 0 2 ''jobInfo'' ''position'' ''MEX_jobInfo_position'' (Some ''17'')]"
  by (subst field_metadata_resolution [THEN conjunct1]) code_simp



text \<open>
  Counterexample to claim C8 as stated. The schema has entity \<open>jobInfo\<close> with the required
  field \<open>b\<close>; the file has the column \<open>jobInfo_a_b\<close>, parsed as entity \<open>jobInfo\<close>, field
  \<open>a_b\<close>. The exact full path, the column name and the entity's field map all miss and the
  entity has no country prefix, yet no warning is emitted: the metadata of field \<open>b\<close> is found
  through the last segment of the column name, and \<open>not_null\<close> reports the empty value.
\<close>

theorem field_metadata_resolved_by_last_segment:
  "let csv = \<lparr>encoding = ''utf-8'',
              dialect = \<lparr>delimiter = '','', quotechar = [CHR 0x22], escapechar = None,
                         doublequote = True, skipinitialspace = False,
                         lineterminator = [CHR 0x0A], quoting = 0\<rparr>,
              columns = [''personInfo_person-id-external'', ''jobInfo_a_b''],
              total_columns = 2, errors = [], label_row_present = True, data_start_index = 2\<rparr>;
       tree = Node ''succession-data-model'' '''' [] ''root''
                [Node ''hris-element'' ''jobInfo'' [] ''element''
                   [Node ''hris-field'' ''b'' [(''required'', ''true'')] ''field'' []]];
       ctx = \<lparr>transform_context = the (fst (transform_csv_context csv)),
              metadata_context = adapt_parsed_metadata ''SF1'' ''v1'' tree,
              enabled_rules = [''required_columns'', ''not_null'', ''data_type'', ''max_length'']\<rparr>;
       engine = \<lparr>global_rules = [], entity_rules = [], field_rules = [NotNullRule, MaxLengthRule]\<rparr>;
       row = transform_row [''17'', ''''] 0 2 (column_to_entity_map (transform_context ctx))
               (tc_entities (transform_context ctx))
   in data_by_entity row = [(''personInfo'', [(''person-id-external'', ''17'')]), (''jobInfo'', [(''a_b'', '''')])]
      \<and> map_of (field_by_full_path (metadata_context ctx)) ''jobInfo_a_b'' = None
      \<and> \<not> startswith_any ''jobInfo'' [''MEX_'', ''USA_'', ''BRA_'', ''CAN_'']
      \<and> get_column_name ctx ''jobInfo'' ''a_b'' = Some ''jobInfo_a_b''
      \<and> entity_field_lookup (metadata_context ctx) ''jobInfo'' ''a_b'' = None
      \<and> validate_triple engine row ctx (Some ''17'') ''jobInfo'' ''a_b'' ''''
          = [required_value_missing 0 2 ''jobInfo'' ''b'' ''jobInfo_a_b'' (Some ''17'')]
      \<and> validate_row engine row ctx
          = [missing_metadata_for_field ''personInfo_person-id-external'',
             required_value_missing 0 2 ''jobInfo'' ''b'' ''jobInfo_a_b'' (Some ''17'')]"
  by code_simp


subsection \<open>Report aggregation\<close>


lemma map_of_dict_set:
  "map_of (dict_set d k v) k' = (if k' = k then Some v else map_of d k')"
  by (induction d) auto

lemma dict_set_twice: "dict_set (dict_set d k v) k w = dict_set d k w"
  by (induction d) auto

lemma identificador_counts_count_errors:
  "identificador_counts (count_errors errs m) =
     (if errs = [] then identificador_counts m
      else dict_set (identificador_counts m) ''personInfo_person-id-external''
             ((case map_of (identificador_counts m) ''personInfo_person-id-external'' of
                 None \<Rightarrow> 0 | Some c \<Rightarrow> c) + length errs))"
proof (induction errs arbitrary: m)
  case Nil
  then show ?case by simp
next
  case (Cons e errs)
  show ?case
    by (cases "errs = []")
      (simp_all add: Cons.IH Let_def increment_def map_of_dict_set dict_set_twice)
qed

lemma identificador_counts_count_batches [simp]:
  "identificador_counts (count_batches brs m) = identificador_counts m"
  by (induction brs arbitrary: m) auto

text \<open>
  Claim C9, at two errors that carry the business identifiers \<open>A\<close> and \<open>B\<close>. The report
  entries carry the identifiers of the errors, but the per-identifier counts of the metrics
  have the single key \<open>personInfo_person-id-external\<close>, the name of the identifier column,
  with the number of all errors: for any input, the counts hold that one key or none.
\<close>

theorem identificador_counts_single_key:
  "identificador_counts (snd (create_report batch_results))
     = (if concat (map bv_errors batch_results) = [] then []
        else [(''personInfo_person-id-external'', length (concat (map bv_errors batch_results)))])
   \<and> identificador_counts (snd (create_report
         [\<lparr>batch_index = 0, processed_rows = 2,
           bv_errors = [required_value_missing 0 2 ''personInfo'' ''first-name'' ''personInfo_first-name'' (Some ''A''),
                        required_value_missing 1 3 ''personInfo'' ''first-name'' ''personInfo_first-name'' (Some ''B'')]\<rparr>]))
     = [(''personInfo_person-id-external'', 2)]
   \<and> map identificador (fst (create_report
         [\<lparr>batch_index = 0, processed_rows = 2,
           bv_errors = [required_value_missing 0 2 ''personInfo'' ''first-name'' ''personInfo_first-name'' (Some ''A''),
                        required_value_missing 1 3 ''personInfo'' ''first-name'' ''personInfo_first-name'' (Some ''B'')]\<rparr>]))
     = [Some ''A'', Some ''B'']"
proof (intro conjI)
  show "identificador_counts (snd (create_report batch_results))
     = (if concat (map bv_errors batch_results) = [] then []
        else [(''personInfo_person-id-external'', length (concat (map bv_errors batch_results)))])"
    unfolding create_report_def calculate_metrics_def snd_conv identificador_counts_count_errors
    by simp
qed (simp_all add: create_report_def calculate_metrics_def Let_def increment_def
      convert_errors_to_entries_def convert_error_to_entry_def required_value_missing_def)

lemma level_of_severity:
  "level (convert_error_to_entry e) =
     (case ve_severity e of FATAL \<Rightarrow> LEVEL_ERROR | ERROR \<Rightarrow> LEVEL_ERROR | WARNING \<Rightarrow> LEVEL_WARNING)"
  by (cases "ve_severity e")
    (simp_all add: convert_error_to_entry_def severity_str_def severity_value_def)


end
